theory Spec2Isabelle
  imports Complex_Main "HOL-Library.Sublist"
begin

section \<open>Retry policy (core/retry\_policy.py)\<close>

text \<open>
  A Python exception is represented by what the classifier reads from it: the class
  name (\<open>type(error).__name__\<close>), the defining module (\<open>type(error).__module__\<close>),
  the message (\<open>str(error)\<close>) and the optional \<open>retry_after\<close> attribute.
\<close>

record exn =
  exn_name :: string
  exn_module :: string
  exn_message :: string
  exn_retry_after :: "int option"

definition RETRY_DELAYS :: "int list" where
  "RETRY_DELAYS = [60, 300, 900]"

definition MAX_RETRIES :: nat where
  "MAX_RETRIES = 3"

definition RETRYABLE_ERRORS :: "string list" where
  "RETRYABLE_ERRORS =
     [''ConnectionError'', ''Timeout'', ''ReadTimeout'', ''TimeoutError'', ''HTTPError'',
      ''APIError'', ''RateLimitError'', ''AnthropicRateLimitError'', ''ServiceUnavailable'',
      ''httpx.ReadTimeout'', ''httpcore.ReadTimeout'', ''httpx.TimeoutException'',
      ''httpcore.TimeoutException'', ''PartialIngestError'']"

definition NON_RETRYABLE_ERRORS :: "string list" where
  "NON_RETRYABLE_ERRORS =
     [''ValidationError'', ''ValueError'', ''FileNotFoundError'', ''InvalidFileFormat'',
      ''AuthenticationError'', ''PermissionDenied'']"

text \<open>\<open>str.lower\<close> on the ASCII letters; other characters are kept.\<close>

definition lower_char :: "char \<Rightarrow> char" where
  "lower_char c =
     (let n = (of_char c :: nat) in if 65 \<le> n \<and> n \<le> 90 then char_of (n + 32) else c)"

definition lower :: "string \<Rightarrow> string" where
  "lower s = map lower_char s"

text \<open>\<open>sub in s\<close> for strings: \<open>sub\<close> occurs as a contiguous piece of \<open>s\<close>.\<close>

fun str_contains :: "string \<Rightarrow> string \<Rightarrow> bool" where
  "str_contains sub [] = (sub = [])"
| "str_contains sub (c # cs) = (take (length sub) (c # cs) = sub \<or> str_contains sub cs)"

definition full_error_type :: "exn \<Rightarrow> string" where
  "full_error_type e =
     (if exn_module e \<noteq> ''builtins'' then exn_module e @ ''.'' @ exn_name e else exn_name e)"

text \<open>
  The guard \<open>status_code and 400 <= status_code < 500 and status_code != 429\<close>;
  \<open>None\<close> and \<open>0\<close> are falsy.
\<close>

definition client_error_status :: "int option \<Rightarrow> bool" where
  "client_error_status sc =
     (case sc of None \<Rightarrow> False
      | Some c \<Rightarrow> c \<noteq> 0 \<and> 400 \<le> c \<and> c < 500 \<and> c \<noteq> 429)"

definition server_error_status :: "int option \<Rightarrow> bool" where
  "server_error_status sc = (case sc of None \<Rightarrow> False | Some c \<Rightarrow> c \<noteq> 0 \<and> c \<ge> 500)"

definition is_retryable_error :: "exn \<Rightarrow> int option \<Rightarrow> bool" where
  "is_retryable_error e status_code =
     (let error_type = exn_name e; full = full_error_type e in
      if error_type \<in> set NON_RETRYABLE_ERRORS \<or> full \<in> set NON_RETRYABLE_ERRORS then False
      else if client_error_status status_code then False
      else if str_contains ''timeout'' (lower error_type)
              \<or> str_contains ''timeout'' (lower (exn_message e)) then True
      else if error_type \<in> set RETRYABLE_ERRORS \<or> full \<in> set RETRYABLE_ERRORS
              \<or> server_error_status status_code then True
      else True)"

definition get_retry_delay :: "nat \<Rightarrow> exn option \<Rightarrow> int" where
  "get_retry_delay retry_count error =
     (case (case error of None \<Rightarrow> None | Some e \<Rightarrow> exn_retry_after e) of
        Some r \<Rightarrow> (if r \<noteq> 0 then r
                   else if retry_count \<ge> length RETRY_DELAYS then last RETRY_DELAYS
                   else RETRY_DELAYS ! retry_count)
      | None \<Rightarrow> (if retry_count \<ge> length RETRY_DELAYS then last RETRY_DELAYS
                 else RETRY_DELAYS ! retry_count))"

text \<open>An exception of a builtin class with the given name and message.\<close>

definition builtin_exn :: "string \<Rightarrow> string \<Rightarrow> exn" where
  "builtin_exn n msg = \<lparr>exn_name = n, exn_module = ''builtins'', exn_message = msg,
     exn_retry_after = None\<rparr>"

section \<open>Rate limiter (core/rate\_limiter.py)\<close>

text \<open>
  The limiter keeps two sorted sets in the key-value store, one per limit. A sorted set
  maps members to scores and holds each member once. The request set has the member
  \<open>f"{now}"\<close> with score \<open>now\<close>, so it is a duplicate-free list of instants kept in
  score order; the token set has the member \<open>f"{now}:{token_count}"\<close> with score
  \<open>now\<close>, so it is a duplicate-free list of pairs kept in score order. Each key carries
  the deadline set by \<open>expire(key, 61)\<close>; a key whose deadline has passed is gone.
  Instants are real numbers (seconds), read from one clock.
\<close>

record rate_limiter =
  rpm_limit :: "int option"
  tpm_limit :: "int option"

record kv_store =
  rpm_set :: "real list"
  rpm_ttl :: "real option"
  tpm_set :: "(real \<times> int) list"
  tpm_ttl :: "real option"

definition kv_empty :: kv_store where
  "kv_empty = \<lparr>rpm_set = [], rpm_ttl = None, tpm_set = [], tpm_ttl = None\<rparr>"

text \<open>\<open>not self.rpm_limit\<close>: \<open>None\<close> and \<open>0\<close> are falsy.\<close>

definition limit_unset :: "int option \<Rightarrow> bool" where
  "limit_unset l = (case l of None \<Rightarrow> True | Some v \<Rightarrow> v = 0)"

text \<open>The members of a key at instant \<open>now\<close>: none once its deadline has passed.\<close>

definition live :: "real \<Rightarrow> real option \<Rightarrow> 'a list \<Rightarrow> 'a list" where
  "live now ttl xs = (case ttl of None \<Rightarrow> xs | Some d \<Rightarrow> if d \<le> now then [] else xs)"

text \<open>\<open>zremrangebyscore(key, 0, hi)\<close> drops the members whose score lies in \<open>[0, hi]\<close>.\<close>

definition zremrangebyscore :: "('a \<Rightarrow> real) \<Rightarrow> real \<Rightarrow> 'a list \<Rightarrow> 'a list" where
  "zremrangebyscore score hi xs = filter (\<lambda>x. \<not> (0 \<le> score x \<and> score x \<le> hi)) xs"

text \<open>\<open>zadd\<close> of a member that is already there leaves the set as it is.\<close>

definition zadd :: "('a \<Rightarrow> real) \<Rightarrow> 'a \<Rightarrow> 'a list \<Rightarrow> 'a list" where
  "zadd score x xs = (if x \<in> set xs then xs else insort_key score x xs)"

text \<open>The deadline of a key after pruning: an emptied sorted set is deleted with its deadline.\<close>

definition ttl_after :: "real \<Rightarrow> real option \<Rightarrow> 'a list \<Rightarrow> real option" where
  "ttl_after now ttl pruned = (if pruned = [] then None else ttl)"

definition acquire_request :: "rate_limiter \<Rightarrow> real \<Rightarrow> kv_store \<Rightarrow> (bool \<times> real) \<times> kv_store" where
  "acquire_request rl now kv =
     (if limit_unset (rpm_limit rl) then ((True, 0), kv)
      else
        let entries = zremrangebyscore id (now - 60) (live now (rpm_ttl kv) (rpm_set kv));
            current_count = int (length entries)
        in if current_count < the (rpm_limit rl)
           then ((True, 0), kv\<lparr>rpm_set := zadd id now entries, rpm_ttl := Some (now + 61)\<rparr>)
           else
             let wait = (case entries of [] \<Rightarrow> 1 | oldest # _ \<Rightarrow> max 0 ((oldest + 60) - now))
             in ((False, wait),
                 kv\<lparr>rpm_set := entries, rpm_ttl := ttl_after now (rpm_ttl kv) entries\<rparr>))"

text \<open>The loop that looks for the entry at which enough tokens have expired.\<close>

fun tokens_wait :: "real \<Rightarrow> int \<Rightarrow> int \<Rightarrow> (real \<times> int) list \<Rightarrow> real" where
  "tokens_wait now deficit freed [] = 1"
| "tokens_wait now deficit freed ((timestamp, tokens) # es) =
     (if freed + tokens \<ge> deficit then max 0 ((timestamp + 60) - now)
      else tokens_wait now deficit (freed + tokens) es)"

definition acquire_tokens :: "rate_limiter \<Rightarrow> int \<Rightarrow> real \<Rightarrow> kv_store \<Rightarrow> (bool \<times> real) \<times> kv_store" where
  "acquire_tokens rl token_count now kv =
     (if limit_unset (tpm_limit rl) then ((True, 0), kv)
      else
        let entries = zremrangebyscore fst (now - 60) (live now (tpm_ttl kv) (tpm_set kv));
            current_tokens = sum_list (map snd entries)
        in if current_tokens + token_count \<le> the (tpm_limit rl)
           then ((True, 0),
                 kv\<lparr>tpm_set := zadd fst (now, token_count) entries, tpm_ttl := Some (now + 61)\<rparr>)
           else
             let deficit = (current_tokens + token_count) - the (tpm_limit rl);
                 wait = tokens_wait now deficit 0 entries
             in ((False, wait),
                 kv\<lparr>tpm_set := entries, tpm_ttl := ttl_after now (tpm_ttl kv) entries\<rparr>))"

text \<open>
  A sequential run of the limiter of one provider: each call is made at the instant the
  clock shows, and the log records the instant, the call and whether it was granted.
\<close>

datatype call = Request | Tokens int

fun run_calls :: "rate_limiter \<Rightarrow> kv_store \<Rightarrow> (real \<times> call) list \<Rightarrow> (real \<times> call \<times> bool) list" where
  "run_calls rl kv [] = []"
| "run_calls rl kv ((now, Request) # cs) =
     (let (r, kv') = acquire_request rl now kv in (now, Request, fst r) # run_calls rl kv' cs)"
| "run_calls rl kv ((now, Tokens n) # cs) =
     (let (r, kv') = acquire_tokens rl n now kv in (now, Tokens n, fst r) # run_calls rl kv' cs)"

text \<open>Requests granted, and tokens granted, at instants of the window \<open>[w, w + 60)\<close>.\<close>

definition in_window :: "real \<Rightarrow> real \<Rightarrow> bool" where
  "in_window w t = (w \<le> t \<and> t < w + 60)"

fun granted_requests :: "real \<Rightarrow> (real \<times> call \<times> bool) list \<Rightarrow> nat" where
  "granted_requests w [] = 0"
| "granted_requests w ((t, c, g) # l) =
     (if c = Request \<and> g \<and> in_window w t then 1 else 0) + granted_requests w l"

fun granted_tokens :: "real \<Rightarrow> (real \<times> call \<times> bool) list \<Rightarrow> int" where
  "granted_tokens w [] = 0"
| "granted_tokens w ((t, c, g) # l) =
     (case c of Tokens n \<Rightarrow> (if g \<and> in_window w t then n else 0) | Request \<Rightarrow> 0)
       + granted_tokens w l"

text \<open>The same counts over the closed window \<open>[w, w + 60]\<close>.\<close>

fun granted_requests_closed :: "real \<Rightarrow> (real \<times> call \<times> bool) list \<Rightarrow> nat" where
  "granted_requests_closed w [] = 0"
| "granted_requests_closed w ((t, c, g) # l) =
     (if c = Request \<and> g \<and> w \<le> t \<and> t \<le> w + 60 then 1 else 0) + granted_requests_closed w l"

definition token_counts_ok :: "(real \<times> call) list \<Rightarrow> bool" where
  "token_counts_ok cs = list_all (\<lambda>(t, c). case c of Tokens n \<Rightarrow> 0 \<le> n | Request \<Rightarrow> True) cs"

text \<open>
  What a window \<open>[w, w + 60)\<close> holds in the store, and the facts that every run from the
  empty store keeps: the recorded instants lie before the next call, and the deadline of a
  key is at least 61 seconds after each of its members.
\<close>

definition rpm_window_count :: "real \<Rightarrow> kv_store \<Rightarrow> nat" where
  "rpm_window_count w kv = length (filter (in_window w) (rpm_set kv))"

definition tpm_window_sum :: "real \<Rightarrow> kv_store \<Rightarrow> int" where
  "tpm_window_sum w kv = sum_list (map snd (filter (\<lambda>e. in_window w (fst e)) (tpm_set kv)))"

definition rpm_inv :: "real \<Rightarrow> kv_store \<Rightarrow> bool" where
  "rpm_inv now kv = ((\<forall>t \<in> set (rpm_set kv). t < now)
     \<and> (\<forall>d. rpm_ttl kv = Some d \<longrightarrow> (\<forall>t \<in> set (rpm_set kv). t + 61 \<le> d)))"

definition tpm_inv :: "real \<Rightarrow> kv_store \<Rightarrow> bool" where
  "tpm_inv now kv = ((\<forall>e \<in> set (tpm_set kv). fst e < now \<and> 0 \<le> snd e)
     \<and> (\<forall>d. tpm_ttl kv = Some d \<longrightarrow> (\<forall>e \<in> set (tpm_set kv). fst e + 61 \<le> d)))"

section \<open>Contextual chunking (services/chunking\_service.py)\<close>

text \<open>
  Text is a list of characters with code points below 256. \<open>str.strip\<close> and the
  regular expression class \<open>\s\<close> agree on which of them are white space.
\<close>

definition is_space :: "char \<Rightarrow> bool" where
  "is_space c = (let n = (of_char c :: nat) in
     (9 \<le> n \<and> n \<le> 13) \<or> (28 \<le> n \<and> n \<le> 32) \<or> n = 133 \<or> n = 160)"

definition strip :: "string \<Rightarrow> string" where
  "strip s = rev (dropWhile is_space (rev (dropWhile is_space s)))"

definition pydantic_validation_error :: "string \<Rightarrow> exn" where
  "pydantic_validation_error msg = \<lparr>exn_name = ''ValidationError'',
     exn_module = ''pydantic_core._pydantic_core'', exn_message = msg, exn_retry_after = None\<rparr>"

text \<open>The class \<open>AnthropicRateLimitError\<close> of the chunking service, with its hint.\<close>

definition AnthropicRateLimitError :: "string \<Rightarrow> int option \<Rightarrow> exn" where
  "AnthropicRateLimitError msg retry_after = \<lparr>exn_name = ''AnthropicRateLimitError'',
     exn_module = ''mentorfy.services.chunking_service'', exn_message = msg,
     exn_retry_after = retry_after\<rparr>"

definition is_AnthropicRateLimitError :: "exn \<Rightarrow> bool" where
  "is_AnthropicRateLimitError e = (exn_name e = ''AnthropicRateLimitError''
     \<and> exn_module e = ''mentorfy.services.chunking_service'')"

record chunk =
  chunk_text :: string
  chunk_context :: string
  chunk_index :: int
  char_start :: int
  char_end :: int
  token_count :: int

text \<open>
  Building a \<open>Chunk\<close> runs the field constraints of the model: \<open>chunk_index\<close> and
  \<open>char_start\<close> at least 0, \<open>char_end\<close> and \<open>token_count\<close> greater than 0.
\<close>

definition Chunk :: "string \<Rightarrow> string \<Rightarrow> int \<Rightarrow> int \<Rightarrow> int \<Rightarrow> int \<Rightarrow> exn + chunk" where
  "Chunk txt ctx idx cstart cend tokens =
     (if 0 \<le> idx \<and> 0 \<le> cstart \<and> 0 < cend \<and> 0 < tokens
      then Inr \<lparr>chunk_text = txt, chunk_context = ctx, chunk_index = idx, char_start = cstart,
                char_end = cend, token_count = tokens\<rparr>
      else Inl (pydantic_validation_error ''validation error for Chunk''))"

record chunking_service =
  chunk_size :: int
  chunk_overlap :: int
  max_concurrent_requests :: int
  limiter :: rate_limiter

definition estimate_tokens :: "string \<Rightarrow> int" where
  "estimate_tokens txt = int (length txt) div 4"

text \<open>
  \<open>re.split(r"(?<=[.!?])\s+", text)\<close>: the text is cut at every run of white space that
  follows one of the three marks, and the run is dropped.
\<close>

definition sentence_end :: "char \<Rightarrow> bool" where
  "sentence_end c = (c = CHR ''.'' \<or> c = CHR ''!'' \<or> c = CHR ''?'')"

function re_split :: "string \<Rightarrow> string \<Rightarrow> string list" where
  "re_split cur [] = [rev cur]"
| "re_split cur (c # cs) =
     (if sentence_end c \<and> cs \<noteq> [] \<and> is_space (hd cs)
      then rev (c # cur) # re_split [] (dropWhile is_space cs)
      else re_split (c # cur) cs)"
  by pat_completeness auto
termination
  by (relation "measure (\<lambda>(cur, s). length s)")
     (auto simp: length_dropWhile_le less_Suc_eq_le)

definition split_into_sentences :: "string \<Rightarrow> string list" where
  "split_into_sentences txt = filter (\<lambda>s. s \<noteq> []) (map strip (re_split [] txt))"

fun join_space :: "string list \<Rightarrow> string" where
  "join_space [] = []"
| "join_space [s] = s"
| "join_space (s # t # ss) = s @ '' '' @ join_space (t # ss)"

record base_chunk =
  bc_text :: string
  bc_char_start :: int
  bc_char_end :: int
  bc_token_count :: int

text \<open>The overlap loop over \<open>reversed(current_chunk)\<close>, with its \<open>break\<close>.\<close>

fun overlap_loop :: "int \<Rightarrow> string list \<Rightarrow> string list \<Rightarrow> int \<Rightarrow> string list \<times> int" where
  "overlap_loop ov [] overlap_sentences overlap_tokens = (overlap_sentences, overlap_tokens)"
| "overlap_loop ov (s # ss) overlap_sentences overlap_tokens =
     (if overlap_tokens + estimate_tokens s > ov then (overlap_sentences, overlap_tokens)
      else overlap_loop ov ss (s # overlap_sentences) (overlap_tokens + estimate_tokens s))"

definition finalize_chunk :: "string list \<Rightarrow> int \<Rightarrow> int \<Rightarrow> base_chunk" where
  "finalize_chunk current_chunk current_tokens char_position =
     (let txt = join_space current_chunk
      in \<lparr>bc_text = txt, bc_char_start = char_position - int (length txt),
           bc_char_end = char_position, bc_token_count = current_tokens\<rparr>)"

fun pack_sentences ::
  "chunking_service \<Rightarrow> string list \<Rightarrow> base_chunk list \<Rightarrow> string list \<Rightarrow> int \<Rightarrow> int \<Rightarrow> base_chunk list" where
  "pack_sentences svc [] chunks current_chunk current_tokens char_position =
     (if current_chunk \<noteq> []
      then chunks @ [finalize_chunk current_chunk current_tokens char_position]
      else chunks)"
| "pack_sentences svc (sentence # rest) chunks current_chunk current_tokens char_position =
     (let sentence_tokens = estimate_tokens sentence
      in if current_tokens + sentence_tokens > chunk_size svc \<and> current_chunk \<noteq> []
         then
           let (overlap_sentences, overlap_tokens) =
                 overlap_loop (chunk_overlap svc) (rev current_chunk) [] 0
           in pack_sentences svc rest
                (chunks @ [finalize_chunk current_chunk current_tokens char_position])
                (overlap_sentences @ [sentence]) (overlap_tokens + sentence_tokens)
                (char_position + int (length sentence) + 1)
         else pack_sentences svc rest chunks (current_chunk @ [sentence])
                (current_tokens + sentence_tokens) (char_position + int (length sentence) + 1))"

definition create_chunks_with_boundaries :: "chunking_service \<Rightarrow> string \<Rightarrow> base_chunk list" where
  "create_chunks_with_boundaries svc txt = pack_sentences svc (split_into_sentences txt) [] [] 0 0"

subsection \<open>One context request\<close>

text \<open>
  The answer of the provider to one \<open>messages.create\<close> call, and what the handler of
  \<open>RateLimitError\<close> finds in the response: no response, no \<open>retry-after\<close> header, an
  empty one, one that \<open>int()\<close> accepts, or one that it rejects.
\<close>

datatype retry_after_header = NoResponse | NoHeader | EmptyHeader | HeaderInt int | HeaderNotInt

datatype llm_answer = LlmText string | LlmRateLimit string retry_after_header | LlmRaises exn

definition parse_retry_after :: "retry_after_header \<Rightarrow> int option" where
  "parse_retry_after h = (case h of HeaderInt n \<Rightarrow> Some n | _ \<Rightarrow> None)"

definition system_content :: "string \<Rightarrow> string option \<Rightarrow> string" where
  "system_content full_document document_title =
     ''<document>'' @ [CHR 0x0A] @ full_document @ [CHR 0x0A] @ ''</document>'' @ [CHR 0x0A, CHR 0x0A]
     @ ''You will receive chunks from this document. For each chunk, provide a brief (1-2 sentence) description that situates it within the context of the overall document. Focus on what the chunk is about and how it relates to the document's main topics.''
     @ (case document_title of None \<Rightarrow> [] | Some t \<Rightarrow> if t = [] then [] else '' The document is titled: '' @ t)
     @ [CHR 0x0A, CHR 0x0A] @ ''Provide only the contextual description, no preamble.''"

definition user_content :: "string \<Rightarrow> string" where
  "user_content txt = ''<chunk>'' @ [CHR 0x0A] @ txt @ [CHR 0x0A] @ ''</chunk>''"

definition estimated_tokens :: "string \<Rightarrow> string \<Rightarrow> string option \<Rightarrow> bool \<Rightarrow> int" where
  "estimated_tokens full_document txt document_title is_first_chunk =
     (let chunk_tokens = estimate_tokens (user_content txt); output_tokens = 100
      in if is_first_chunk
         then estimate_tokens (system_content full_document document_title) + chunk_tokens + output_tokens
         else chunk_tokens + output_tokens)"

definition max_wait_attempts :: nat where
  "max_wait_attempts = 20"

text \<open>
  The reservation loop. \<open>clock i\<close> is the instant at which attempt \<open>i\<close> asks the limiter
  and \<open>rnd i\<close> the value of \<open>random.random()\<close> drawn after its denial. The loop returns
  the final value of \<open>attempts\<close>, whether the last answer allowed to proceed, the store,
  and the pauses slept.
\<close>

function reserve_loop ::
  "rate_limiter \<Rightarrow> (nat \<Rightarrow> real) \<Rightarrow> (nat \<Rightarrow> real) \<Rightarrow> int \<Rightarrow> nat \<Rightarrow> kv_store \<Rightarrow> real list
     \<Rightarrow> nat \<times> kv_store \<times> real list" where
  "reserve_loop rl clock rnd est attempts kv sleeps =
     (if attempts < max_wait_attempts then
        (let ((can_proceed, wait_time), kv') = acquire_tokens rl est (clock attempts) kv
         in if can_proceed then (attempts, kv', sleeps)
            else
              let backoff = min (2 ^ attempts) 30;
                  jitter = 0.8 + (rnd attempts * 0.4);
                  actual_wait = max wait_time backoff * jitter
              in reserve_loop rl clock rnd est (attempts + 1) kv' (sleeps @ [actual_wait]))
      else (attempts, kv, sleeps))"
  by pat_completeness auto
termination
  by (relation "measure (\<lambda>(rl, clock, rnd, est, attempts, kv, sleeps). max_wait_attempts - attempts)")
     auto

record context_run =
  cr_result :: "exn + string"
  cr_kv :: kv_store
  cr_denied :: nat
  cr_sleeps :: "real list"
  cr_llm_calls :: nat

definition generate_chunk_context ::
  "chunking_service \<Rightarrow> (nat \<Rightarrow> real) \<Rightarrow> (nat \<Rightarrow> real) \<Rightarrow> llm_answer \<Rightarrow> kv_store
     \<Rightarrow> string \<Rightarrow> string \<Rightarrow> string option \<Rightarrow> bool \<Rightarrow> context_run" where
  "generate_chunk_context svc clock rnd answer kv full_document txt document_title is_first_chunk =
     (let est = estimated_tokens full_document txt document_title is_first_chunk;
          (attempts, kv', sleeps) = reserve_loop (limiter svc) clock rnd est 0 kv []
      in if attempts \<ge> max_wait_attempts
         then \<lparr>cr_result = Inl (builtin_exn ''RuntimeError''
                   ''Failed to acquire TPM capacity after 20 attempts''),
                cr_kv = kv', cr_denied = attempts, cr_sleeps = sleeps, cr_llm_calls = 0\<rparr>
         else \<lparr>cr_result =
                  (case answer of
                     LlmText t \<Rightarrow> Inr (strip t)
                   | LlmRateLimit msg h \<Rightarrow> Inl (AnthropicRateLimitError msg (parse_retry_after h))
                   | LlmRaises e \<Rightarrow> Inl e),
                cr_kv = kv', cr_denied = attempts, cr_sleeps = sleeps, cr_llm_calls = 1\<rparr>)"

subsection \<open>The wave loop\<close>

text \<open>Python's \<open>xs[i:j]\<close> for integers \<open>i\<close>, \<open>j\<close> of either sign.\<close>

definition py_slice :: "'a list \<Rightarrow> int \<Rightarrow> int \<Rightarrow> 'a list" where
  "py_slice xs i j =
     (let n = int (length xs);
          i' = (if i < 0 then max (i + n) 0 else min i n);
          j' = (if j < 0 then max (j + n) 0 else min j n)
      in if i' < j' then take (nat (j' - i')) (drop (nat i') xs) else [])"

text \<open>
  What \<open>asyncio.gather\<close> over the requests of one wave attempt gives: the contexts of
  the wave, or the first exception raised by one of its requests. It is supplied by the
  environment, per attempt number and wave.
\<close>

datatype wave_answer = WaveContexts "string list" | WaveRaises exn

definition max_rate_limit_retries :: int where
  "max_rate_limit_retries = 10"

definition batch_delay :: real where
  "batch_delay = 2"

text \<open>\<open>e.retry_after or 60\<close>.\<close>

definition rate_limit_wait :: "int option \<Rightarrow> int" where
  "rate_limit_wait retry_after = (case retry_after of None \<Rightarrow> 60 | Some r \<Rightarrow> if r = 0 then 60 else r)"

record wave_run =
  wr_result :: "exn + string list"
  wr_attempts :: nat
  wr_requests :: nat
  wr_sleeps :: "real list"

text \<open>
  The \<open>while batch_start < len(remaining_chunks)\<close> loop. \<open>attempts\<close> counts the wave
  attempts made so far and \<open>requests\<close> the context requests started. A loop that does not
  return has the value \<open>None\<close>.
\<close>

partial_function (option) wave_loop ::
  "int \<Rightarrow> (nat \<Rightarrow> string list \<Rightarrow> wave_answer) \<Rightarrow> string list \<Rightarrow> int \<Rightarrow> int \<Rightarrow> nat \<Rightarrow> nat
     \<Rightarrow> string list \<Rightarrow> real list \<Rightarrow> wave_run option" where
  "wave_loop batch_size gather remaining_chunks batch_start rate_limit_retries attempts requests
       contexts sleeps =
     (if batch_start < int (length remaining_chunks) then
        (let batch_end = min (batch_start + batch_size) (int (length remaining_chunks));
             batch = py_slice remaining_chunks batch_start batch_end
         in if batch_size = 0
            then Some \<lparr>wr_result = Inl (builtin_exn ''ZeroDivisionError''
                          ''integer division or modulo by zero''),
                        wr_attempts = attempts, wr_requests = requests, wr_sleeps = sleeps\<rparr>
            else
              (case (if batch = [] then WaveContexts [] else gather attempts batch) of
                 WaveContexts batch_contexts \<Rightarrow>
                   wave_loop batch_size gather remaining_chunks batch_end 0 (attempts + 1)
                     (requests + length batch) (contexts @ batch_contexts)
                     (if batch_end < int (length remaining_chunks) then sleeps @ [batch_delay]
                      else sleeps)
               | WaveRaises e \<Rightarrow>
                   if is_AnthropicRateLimitError e then
                     (if rate_limit_retries + 1 > max_rate_limit_retries
                      then Some \<lparr>wr_result = Inl e, wr_attempts = attempts + 1,
                                  wr_requests = requests + length batch, wr_sleeps = sleeps\<rparr>
                      else wave_loop batch_size gather remaining_chunks batch_start
                             (rate_limit_retries + 1) (attempts + 1) (requests + length batch)
                             contexts
                             (sleeps @ [real_of_int (rate_limit_wait (exn_retry_after e))]))
                   else Some \<lparr>wr_result = Inl e, wr_attempts = attempts + 1,
                               wr_requests = requests + length batch, wr_sleeps = sleeps\<rparr>))
      else Some \<lparr>wr_result = Inr contexts, wr_attempts = attempts, wr_requests = requests,
                  wr_sleeps = sleeps\<rparr>)"

text \<open>\<open>total_batches\<close>, the number of waves.\<close>

definition total_batches :: "int \<Rightarrow> string list \<Rightarrow> int" where
  "total_batches batch_size remaining_chunks =
     (int (length remaining_chunks) + batch_size - 1) div batch_size"

text \<open>
  \<open>first\<close> is the outcome of the request for the first chunk, which is made alone
  before the loop.
\<close>

definition generate_contexts_concurrent ::
  "chunking_service \<Rightarrow> (exn + string) \<Rightarrow> (nat \<Rightarrow> string list \<Rightarrow> wave_answer) \<Rightarrow> base_chunk list
     \<Rightarrow> wave_run option" where
  "generate_contexts_concurrent svc first gather base_chunks =
     (case base_chunks of
        [] \<Rightarrow> Some \<lparr>wr_result = Inl (builtin_exn ''IndexError'' ''list index out of range''),
                     wr_attempts = 0, wr_requests = 0, wr_sleeps = []\<rparr>
      | _ # rest \<Rightarrow>
          (case first of
             Inl e \<Rightarrow> Some \<lparr>wr_result = Inl e, wr_attempts = 0, wr_requests = 1, wr_sleeps = []\<rparr>
           | Inr first_context \<Rightarrow>
               if rest = []
               then Some \<lparr>wr_result = Inr [first_context], wr_attempts = 0, wr_requests = 1,
                           wr_sleeps = []\<rparr>
               else wave_loop (max_concurrent_requests svc) gather (map bc_text rest) 0 0 0 1
                      [first_context] []))"

subsection \<open>chunk\_document\<close>

fun build_chunks :: "int \<Rightarrow> (base_chunk \<times> string) list \<Rightarrow> exn + chunk list" where
  "build_chunks i [] = Inr []"
| "build_chunks i ((b, ctx) # rest) =
     (case Chunk (bc_text b) ctx i (bc_char_start b) (bc_char_end b) (bc_token_count b) of
        Inl e \<Rightarrow> Inl e
      | Inr c \<Rightarrow> (case build_chunks (i + 1) rest of Inl e \<Rightarrow> Inl e | Inr cs \<Rightarrow> Inr (c # cs)))"

text \<open>\<open>document_title or "Short document"\<close>.\<close>

definition title_or_default :: "string option \<Rightarrow> string" where
  "title_or_default document_title =
     (case document_title of None \<Rightarrow> ''Short document''
      | Some t \<Rightarrow> if t = [] then ''Short document'' else t)"

record chunk_document_run =
  cd_result :: "exn + chunk list"
  cd_llm_requests :: nat

definition chunk_document ::
  "chunking_service \<Rightarrow> (exn + string) \<Rightarrow> (nat \<Rightarrow> string list \<Rightarrow> wave_answer) \<Rightarrow> string
     \<Rightarrow> string option \<Rightarrow> chunk_document_run option" where
  "chunk_document svc first gather text0 document_title =
     (let txt = strip text0
      in if txt = []
         then Some \<lparr>cd_result = Inl (builtin_exn ''ValueError'' ''Document text is empty''),
                     cd_llm_requests = 0\<rparr>
         else
           let text_tokens = estimate_tokens txt
           in if text_tokens < chunk_size svc
              then Some \<lparr>cd_result = (case Chunk txt (title_or_default document_title) 0 0
                                           (int (length txt)) text_tokens of
                                         Inl e \<Rightarrow> Inl e | Inr c \<Rightarrow> Inr [c]),
                          cd_llm_requests = 0\<rparr>
              else
                let base_chunks = create_chunks_with_boundaries svc txt
                in (case generate_contexts_concurrent svc first gather base_chunks of
                      None \<Rightarrow> None
                    | Some run \<Rightarrow>
                        Some \<lparr>cd_result =
                                 (case wr_result run of
                                    Inl e \<Rightarrow> Inl e
                                  | Inr contexts \<Rightarrow> build_chunks 0 (zip base_chunks contexts)),
                               cd_llm_requests = wr_requests run\<rparr>))"

text \<open>The service that \<open>get_chunking_service\<close> builds, given the two settings of the environment.\<close>

definition get_chunking_service :: "int \<Rightarrow> int \<Rightarrow> chunking_service" where
  "get_chunking_service max_concurrent tpm =
     \<lparr>chunk_size = 800, chunk_overlap = 100, max_concurrent_requests = max_concurrent,
      limiter = \<lparr>rpm_limit = None, tpm_limit = Some tpm\<rparr>\<rparr>"

text \<open>Every reservation recorded in the token window is for a non-negative count.\<close>

definition tokens_nonneg :: "kv_store \<Rightarrow> bool" where
  "tokens_nonneg kv = list_all (\<lambda>(t, n). 0 \<le> n) (tpm_set kv)"

section \<open>The relational store and the queues\<close>

text \<open>
  The tables the pipeline reads and writes, with the columns it touches. Identifiers that
  the store generates are natural numbers; instants are read from a clock. JSON values of
  metadata maps and of returned dictionaries are values of \<open>json\<close>; a dictionary is an
  association list. Every operation of the store succeeds; its constraints are not part
  of the model.
\<close>

datatype json = JNone | JBool bool | JInt int | JReal real | JStr string | JList "json list"

type_synonym dict = "(string \<times> json) list"

text \<open>\<open>{**current, **new}\<close>\<close>

definition merge_dict :: "dict \<Rightarrow> dict \<Rightarrow> dict" where
  "merge_dict current new = filter (\<lambda>(k, v). k \<notin> fst ` set new) current @ new"

record pipeline_job =
  pj_id :: nat
  pj_document_id :: string
  pj_clerk_org_id :: string
  pj_current_phase :: string
  pj_status :: string
  pj_started_at :: "real option"
  pj_completed_at :: "real option"
  pj_updated_at :: "real option"
  pj_metadata :: dict

record pipeline_phase =
  pp_id :: nat
  pp_pipeline_job_id :: nat
  pp_phase :: string
  pp_status :: string
  pp_input_location :: "string option"
  pp_output_location :: "string option"
  pp_retry_count :: nat
  pp_parent_phase_id :: "nat option"
  pp_queued_at :: "real option"
  pp_started_at :: "real option"
  pp_completed_at :: "real option"
  pp_expected_completion_at :: "real option"
  pp_error_type :: "string option"
  pp_error_message :: "string option"
  pp_metadata :: dict

record document =
  doc_id :: string
  doc_title :: "string option"
  doc_created_at :: "real option"
  doc_status :: string
  doc_updated_at :: "real option"

record document_chunk =
  dc_id :: nat
  dc_document_id :: string
  dc_content :: string
  dc_context :: string
  dc_chunk_index :: int

record kg_entity_mapping =
  km_organization_id :: "string option"
  km_document_id :: string
  km_entity_id :: string
  km_provider :: string
  km_entity_type :: string
  km_source_chunk_ids :: "nat list"

text \<open>An item put on a queue: the queue, the handler's arguments, and the delay if any.\<close>

record queued_task =
  qt_queue :: string
  qt_pipeline_job_id :: nat
  qt_document_id :: string
  qt_location :: "string option"
  qt_retry_count :: nat
  qt_parent_phase_ids :: "nat option list"
  qt_delay :: "int option"

text \<open>What a handler does to the outside, in the order in which it does it.\<close>

datatype event =
    InsertPhase nat string string
  | UpdatePhase nat string "string option"
  | UpdateJob nat string
  | UpdateDocument string string
  | InsertMapping string string
  | DeleteMappings string
  | AddEpisode nat
  | RemoveEpisode string
  | Raised exn
  | Enqueued string

record world =
  jobs :: "pipeline_job list"
  phases :: "pipeline_phase list"
  documents :: "document list"
  chunks :: "document_chunk list"
  mappings :: "kg_entity_mapping list"
  queue :: "queued_task list"
  trace :: "event list"

definition fresh_id :: "nat list \<Rightarrow> nat" where
  "fresh_id ids = Suc (fold max ids 0)"

subsection \<open>Cancelling the jobs of a document (utils/deletion.py)\<close>

text \<open>
  The function makes three requests to the store inside one \<open>try\<close>; \<open>db_fails\<close> is the
  number of the request that raises, if one does. \<open>clock 0\<close> and \<open>clock 1\<close> are the two
  readings of the clock, for the jobs and for the phases.
\<close>

definition active_job :: "string \<Rightarrow> string \<Rightarrow> pipeline_job \<Rightarrow> bool" where
  "active_job document_id org_id j =
     (pj_document_id j = document_id \<and> pj_clerk_org_id j = org_id
      \<and> pj_status j \<in> set [''processing'', ''pending''])"

definition cancel_pipeline_jobs_for_document ::
  "nat option \<Rightarrow> (nat \<Rightarrow> real) \<Rightarrow> string \<Rightarrow> string \<Rightarrow> world \<Rightarrow> nat \<times> world" where
  "cancel_pipeline_jobs_for_document db_fails clock document_id org_id w =
     (if db_fails = Some 0 then (0, w)
      else
        let jobs_result = filter (active_job document_id org_id) (jobs w)
        in if jobs_result = [] then (0, w)
           else
             let pipeline_job_ids = map pj_id jobs_result
             in if db_fails = Some 1 then (0, w)
                else
                  let w1 = w\<lparr>jobs := map (\<lambda>j. if pj_id j \<in> set pipeline_job_ids
                                    then j\<lparr>pj_status := ''cancelled'',
                                           pj_completed_at := Some (clock 0)\<rparr>
                                    else j) (jobs w)\<rparr>
                  in if db_fails = Some 2 then (0, w1)
                     else
                       (length pipeline_job_ids,
                        w1\<lparr>phases := map (\<lambda>p. if pp_pipeline_job_id p \<in> set pipeline_job_ids
                                    \<and> pp_status p \<in> set [''queued'', ''processing'']
                                  then p\<lparr>pp_status := ''cancelled'',
                                         pp_completed_at := Some (clock 1),
                                         pp_error_message := Some ''Document was deleted''\<rparr>
                                  else p) (phases w1)\<rparr>))"

subsection \<open>Submitting a document (core/pipeline\_helpers.py)\<close>

text \<open>\<open>not x\<close> for an optional string: \<open>None\<close> and the empty string are falsy.\<close>

definition falsy :: "string option \<Rightarrow> bool" where
  "falsy x = (case x of None \<Rightarrow> True | Some s \<Rightarrow> s = [])"

text \<open>
  \<open>create_pipeline_job\<close>; \<open>insert_returns_row\<close> says whether the insert hands the new
  row back.
\<close>

definition create_pipeline_job ::
  "bool \<Rightarrow> (nat \<Rightarrow> real) \<Rightarrow> string \<Rightarrow> string \<Rightarrow> string \<Rightarrow> string \<Rightarrow> bool \<Rightarrow> world
     \<Rightarrow> (exn + nat) \<times> world" where
  "create_pipeline_job insert_returns_row clock document_id source_platform clerk_org_id
       source_name store_raw w =
     (let new_id = fresh_id (map pj_id (jobs w));
          job = \<lparr>pj_id = new_id, pj_document_id = document_id, pj_clerk_org_id = clerk_org_id,
                 pj_current_phase = (if source_platform \<noteq> ''manual_upload'' then ''ingestion''
                                     else ''extraction''),
                 pj_status = ''processing'', pj_started_at = Some (clock 0),
                 pj_completed_at = None, pj_updated_at = None,
                 pj_metadata = [(''source_name'', JStr source_name),
                                (''source_platform'', JStr source_platform),
                                (''store_raw'', JBool store_raw)]\<rparr>;
          w' = w\<lparr>jobs := jobs w @ [job]\<rparr>
      in if \<not> insert_returns_row
         then (Inl (builtin_exn ''ValueError'' ''Failed to create pipeline_job record''), w')
         else (Inr new_id, w'))"

definition create_skipped_ingestion_phase :: "(nat \<Rightarrow> real) \<Rightarrow> nat \<Rightarrow> world \<Rightarrow> world" where
  "create_skipped_ingestion_phase clock pipeline_job_id w =
     (let new_id = fresh_id (map pp_id (phases w))
      in w\<lparr>phases := phases w @
            [\<lparr>pp_id = new_id, pp_pipeline_job_id = pipeline_job_id, pp_phase = ''ingestion'',
              pp_status = ''skipped'', pp_input_location = None, pp_output_location = None,
              pp_retry_count = 0, pp_parent_phase_id = None, pp_queued_at = Some (clock 1),
              pp_started_at = None, pp_completed_at = Some (clock 2),
              pp_expected_completion_at = None, pp_error_type = None, pp_error_message = None,
              pp_metadata = [(''reason'', JStr ''manual_upload'')]\<rparr>],
           trace := trace w @ [InsertPhase new_id ''ingestion'' ''skipped'']\<rparr>)"

definition enqueue_task :: "string \<Rightarrow> nat \<Rightarrow> string \<Rightarrow> string option \<Rightarrow> world \<Rightarrow> world" where
  "enqueue_task q pipeline_job_id document_id location w =
     w\<lparr>queue := queue w @
          [\<lparr>qt_queue = q, qt_pipeline_job_id = pipeline_job_id, qt_document_id = document_id,
            qt_location = location, qt_retry_count = 0, qt_parent_phase_ids = [],
            qt_delay = None\<rparr>],
       trace := trace w @ [Enqueued q]\<rparr>"

text \<open>The identifier that the queue gives back, \<open>f"extract_{pipeline_job_id}"\<close> and the like.\<close>

datatype rq_job_id = RqJob string nat

definition enqueue_pipeline_job ::
  "bool \<Rightarrow> (nat \<Rightarrow> real) \<Rightarrow> string \<Rightarrow> string \<Rightarrow> string \<Rightarrow> string \<Rightarrow> string
     \<Rightarrow> string option \<Rightarrow> string option \<Rightarrow> bool \<Rightarrow> world \<Rightarrow> (exn + nat \<times> rq_job_id) \<times> world" where
  "enqueue_pipeline_job insert_returns_row clock document_id source_platform clerk_org_id
       source_name file_type raw_location source_location store_raw w =
     (case create_pipeline_job insert_returns_row clock document_id source_platform clerk_org_id
             source_name store_raw w of
        (Inl e, w1) \<Rightarrow> (Inl e, w1)
      | (Inr pipeline_job_id, w1) \<Rightarrow>
          if source_platform = ''manual_upload'' then
            (if falsy raw_location
             then (Inl (builtin_exn ''ValueError'' ''raw_location required for manual uploads''), w1)
             else
               let w2 = create_skipped_ingestion_phase clock pipeline_job_id w1;
                   w3 = enqueue_task ''extraction'' pipeline_job_id document_id raw_location w2
               in (Inr (pipeline_job_id, RqJob ''extract_'' pipeline_job_id), w3))
          else
            (if falsy source_location
             then (Inl (builtin_exn ''ValueError''
                          ''source_location required for external sources''), w1)
             else
               let w3 = enqueue_task ''ingest_extract'' pipeline_job_id document_id
                          source_location w1
               in (Inr (pipeline_job_id, RqJob ''ingest_extract_'' pipeline_job_id), w3)))"

section \<open>The phase handlers (workers)\<close>

text \<open>
  A handler reads the clock at several places; \<open>clock i\<close> is the instant read at place
  \<open>i\<close> of the handler. What the services outside the store answer is given by an
  environment record per handler. The progress counter kept on the queue item is left out.
\<close>

record task_kwargs =
  kw_source_name :: "string option"
  kw_source_platform :: "string option"
  kw_clerk_org_id :: "string option"
  kw_file_type :: "string option"
  kw_user_id :: "string option"
  kw_store_raw :: "bool option"

definition PHASE_BASE_EXECUTION_TIME :: "string \<Rightarrow> int option" where
  "PHASE_BASE_EXECUTION_TIME phase =
     (if phase = ''extraction'' then Some 600 else if phase = ''chunking'' then Some 300
      else if phase = ''kg_ingest'' then Some 1200 else None)"

definition get_phase_timeout :: "string \<Rightarrow> int" where
  "get_phase_timeout phase =
     (case PHASE_BASE_EXECUTION_TIME phase of None \<Rightarrow> 600 | Some t \<Rightarrow> t)
       + sum_list RETRY_DELAYS + 300"

definition update_phase :: "nat \<Rightarrow> (pipeline_phase \<Rightarrow> pipeline_phase) \<Rightarrow> world \<Rightarrow> world" where
  "update_phase pid f w = w\<lparr>phases := map (\<lambda>p. if pp_id p = pid then f p else p) (phases w)\<rparr>"

definition update_job :: "nat \<Rightarrow> (pipeline_job \<Rightarrow> pipeline_job) \<Rightarrow> world \<Rightarrow> world" where
  "update_job jid f w = w\<lparr>jobs := map (\<lambda>j. if pj_id j = jid then f j else j) (jobs w)\<rparr>"

definition log_event :: "event \<Rightarrow> world \<Rightarrow> world" where
  "log_event ev w = w\<lparr>trace := trace w @ [ev]\<rparr>"

text \<open>Inserting a phase row; the store hands back the identifier of the new row.\<close>

definition insert_phase ::
  "nat \<Rightarrow> string \<Rightarrow> string \<Rightarrow> string option \<Rightarrow> nat \<Rightarrow> nat option \<Rightarrow> real option \<Rightarrow> real option
     \<Rightarrow> real option \<Rightarrow> world \<Rightarrow> nat \<times> world" where
  "insert_phase pipeline_job_id label status input_location retry_count parent_phase_id queued_at
       started_at expected_completion_at w =
     (let new_id = fresh_id (map pp_id (phases w))
      in (new_id,
          log_event (InsertPhase new_id label status)
            (w\<lparr>phases := phases w @
               [\<lparr>pp_id = new_id, pp_pipeline_job_id = pipeline_job_id, pp_phase = label,
                 pp_status = status, pp_input_location = input_location,
                 pp_output_location = None, pp_retry_count = retry_count,
                 pp_parent_phase_id = parent_phase_id, pp_queued_at = queued_at,
                 pp_started_at = started_at, pp_completed_at = None,
                 pp_expected_completion_at = expected_completion_at, pp_error_type = None,
                 pp_error_message = None, pp_metadata = []\<rparr>]\<rparr>)))"

definition insert_processing_phase ::
  "real \<Rightarrow> nat \<Rightarrow> string \<Rightarrow> string \<Rightarrow> string option \<Rightarrow> nat \<Rightarrow> nat option \<Rightarrow> world \<Rightarrow> nat \<times> world" where
  "insert_processing_phase now pipeline_job_id label timeout_label input_location retry_count
       parent_phase_id w =
     insert_phase pipeline_job_id label ''processing'' input_location retry_count parent_phase_id
       None (Some now) (Some (now + real_of_int (get_phase_timeout timeout_label))) w"

definition update_job_metadata :: "real \<Rightarrow> nat \<Rightarrow> dict \<Rightarrow> world \<Rightarrow> world" where
  "update_job_metadata now pipeline_job_id new_metadata w =
     (let current_metadata = (case filter (\<lambda>j. pj_id j = pipeline_job_id) (jobs w) of
                                [] \<Rightarrow> [] | j # _ \<Rightarrow> pj_metadata j)
      in update_job pipeline_job_id
           (\<lambda>j. j\<lparr>pj_metadata := merge_dict current_metadata new_metadata,
                  pj_updated_at := Some now\<rparr>) w)"

definition clear_retry_metadata :: "real \<Rightarrow> nat \<Rightarrow> nat \<Rightarrow> world \<Rightarrow> world" where
  "clear_retry_metadata now pipeline_job_id retry_count w =
     (if retry_count > 0
      then update_job_metadata now pipeline_job_id
             [(''retry_at'', JNone), (''retry_count'', JInt (int retry_count)),
              (''last_error'', JNone)] w
      else w)"

subsection \<open>The except block of the handlers\<close>

text \<open>
  Every handler ends in the same \<open>except Exception as e\<close> block: it marks the phase rows
  it has created as failed, and then either schedules a retry (a queued phase per label,
  the retry metadata, a delayed item on the handler's queue) or gives up and marks the job
  failed. \<open>labels\<close> lists the phase labels of the handler with the identifier of the row
  created, if it was. In the extraction handler the update of the give-up branch carries
  the result of a remote procedure call as its metadata; \<open>rpc\<close> is what that call gives,
  and \<open>None\<close> stands for the handlers that make no such call.
\<close>

definition mark_failed :: "real \<Rightarrow> exn \<Rightarrow> nat option \<Rightarrow> world \<Rightarrow> world" where
  "mark_failed now e phase_id w =
     (case phase_id of
        None \<Rightarrow> w
      | Some pid \<Rightarrow>
          log_event (UpdatePhase pid ''failed'' (Some (exn_name e)))
            (update_phase pid (\<lambda>p. p\<lparr>pp_status := ''failed'',
                 pp_error_message := Some (exn_message e), pp_error_type := Some (exn_name e),
                 pp_completed_at := Some now\<rparr>) w))"

fun mark_all_failed :: "real \<Rightarrow> exn \<Rightarrow> (string \<times> nat option) list \<Rightarrow> world \<Rightarrow> world" where
  "mark_all_failed now e [] w = w"
| "mark_all_failed now e ((label, phase_id) # rest) w =
     mark_all_failed now e rest (mark_failed now e phase_id w)"

fun insert_retry_phases ::
  "real \<Rightarrow> int \<Rightarrow> nat \<Rightarrow> nat \<Rightarrow> string option \<Rightarrow> (string \<times> nat option) list \<Rightarrow> world \<Rightarrow> world" where
  "insert_retry_phases now delay pipeline_job_id next_retry input_location [] w = w"
| "insert_retry_phases now delay pipeline_job_id next_retry input_location
       ((label, phase_id) # rest) w =
     insert_retry_phases now delay pipeline_job_id next_retry input_location rest
       (snd (insert_phase pipeline_job_id label ''queued'' input_location next_retry phase_id
               (Some (now + real_of_int delay)) None None w))"

definition failure_return :: "nat \<Rightarrow> exn \<Rightarrow> dict" where
  "failure_return retry_count e =
     [(''status'', JStr (if retry_count \<ge> MAX_RETRIES \<or> \<not> is_retryable_error e None
                          then ''failed'' else ''retrying'')),
      (''error'', JStr (exn_message e)),
      (''retry_count'', JInt (int retry_count))]"

definition except_block ::
  "(nat \<Rightarrow> real) \<Rightarrow> string \<Rightarrow> (string \<times> nat option) list \<Rightarrow> string option \<Rightarrow> (exn + dict) option
     \<Rightarrow> nat \<Rightarrow> string \<Rightarrow> nat \<Rightarrow> exn \<Rightarrow> world \<Rightarrow> (exn + dict) \<times> world" where
  "except_block clock queue_name labels input_location rpc pipeline_job_id document_id
       retry_count e w =
     (let w1 = mark_all_failed (clock 90) e labels (log_event (Raised e) w)
      in if retry_count < MAX_RETRIES \<and> is_retryable_error e None then
           (let delay = get_retry_delay retry_count (Some e);
                next_retry = retry_count + 1;
                now = clock 91;
                w2 = insert_retry_phases now delay pipeline_job_id next_retry input_location
                       labels w1;
                w3 = update_job_metadata (clock 92) pipeline_job_id
                       [(''retry_at'', JReal (now + real_of_int delay)),
                        (''retry_count'', JInt (int next_retry)),
                        (''last_error'', JStr (take 500 (exn_message e)))] w2;
                w4 = log_event (Enqueued queue_name)
                       (w3\<lparr>queue := queue w3 @
                          [\<lparr>qt_queue = queue_name, qt_pipeline_job_id = pipeline_job_id,
                            qt_document_id = document_id, qt_location = input_location,
                            qt_retry_count = next_retry,
                            qt_parent_phase_ids = map snd labels,
                            qt_delay = Some delay\<rparr>]\<rparr>)
            in (Inr (failure_return retry_count e), w4))
         else
           (case rpc of
              None \<Rightarrow>
                (Inr (failure_return retry_count e),
                 log_event (UpdateJob pipeline_job_id ''failed'')
                   (update_job pipeline_job_id
                      (\<lambda>j. j\<lparr>pj_status := ''failed'', pj_completed_at := Some (clock 93)\<rparr>) w1))
            | Some (Inl rpc_error) \<Rightarrow> (Inl rpc_error, w1)
            | Some (Inr rpc_value) \<Rightarrow>
                (Inr (failure_return retry_count e),
                 log_event (UpdateJob pipeline_job_id ''failed'')
                   (update_job pipeline_job_id
                      (\<lambda>j. j\<lparr>pj_status := ''failed'', pj_completed_at := Some (clock 93),
                             pj_metadata := rpc_value\<rparr>) w1))))"

subsection \<open>Graph ingest (workers/kg\_worker.py)\<close>








fun remove_episodes :: "string list \<Rightarrow> world \<Rightarrow> world" where
  "remove_episodes [] w = w"
| "remove_episodes (i # is) w = remove_episodes is (log_event (RemoveEpisode i) w)"

definition load_chunks :: "string \<Rightarrow> world \<Rightarrow> document_chunk list" where
  "load_chunks document_id w =
     sort_key dc_chunk_index (filter (\<lambda>c. dc_document_id c = document_id) (chunks w))"

definition delete_mappings :: "string \<Rightarrow> world \<Rightarrow> world" where
  "delete_mappings document_id w =
     log_event (DeleteMappings document_id)
       (w\<lparr>mappings := filter (\<lambda>m. km_document_id m \<noteq> document_id) (mappings w)\<rparr>)"

text \<open>
  \<open>doc_result.data.get("title", source_name) if doc_result.data else source_name\<close>,
  with \<open>source_name = kwargs.get("source_name", "Unknown file")\<close>.
\<close>

definition lookup_document_title :: "task_kwargs \<Rightarrow> string \<Rightarrow> world \<Rightarrow> string option" where
  "lookup_document_title kw document_id w =
     (let source_name = (case kw_source_name kw of None \<Rightarrow> ''Unknown file'' | Some n \<Rightarrow> n)
      in case filter (\<lambda>d. doc_id d = document_id) (documents w) of
           [] \<Rightarrow> Some source_name | d # _ \<Rightarrow> doc_title d)"



text \<open>
  The rows of the mapping table that belong to a document; what one chunk request hands
  back; and the rows that the chunk requests of a run add.
\<close>

definition document_mappings :: "string \<Rightarrow> world \<Rightarrow> kg_entity_mapping list" where
  "document_mappings document_id w = filter (\<lambda>m. km_document_id m = document_id) (mappings w)"



subsection \<open>Extraction (workers/extraction\_worker.py, workers/ingest\_extract\_worker.py)\<close>

definition starts_with :: "string \<Rightarrow> string \<Rightarrow> bool" where
  "starts_with s p = (take (length p) s = p)"

definition AUDIO_MIME_TYPES :: "string list" where
  "AUDIO_MIME_TYPES = [''audio/mpeg'', ''audio/mp4'', ''audio/wav'', ''audio/flac'',
     ''audio/ogg'', ''audio/opus'', ''audio/x-m4a'', ''audio/x-wav'']"

definition VIDEO_MIME_TYPES :: "string list" where
  "VIDEO_MIME_TYPES = [''video/mp4'', ''video/quicktime'', ''video/x-msvideo'',
     ''video/x-matroska'', ''video/webm'', ''video/mpeg'']"

definition is_audio_video_file :: "string \<Rightarrow> bool" where
  "is_audio_video_file mime_type =
     (if mime_type \<in> set AUDIO_MIME_TYPES \<or> mime_type \<in> set VIDEO_MIME_TYPES then True
      else starts_with mime_type ''audio/'' \<or> starts_with mime_type ''video/'')"

definition EXTENSION_TO_MIME :: "(string \<times> string) list" where
  "EXTENSION_TO_MIME =
     [(''mp3'', ''audio/mpeg''), (''m4a'', ''audio/mp4''), (''wav'', ''audio/wav''),
      (''flac'', ''audio/flac''), (''ogg'', ''audio/ogg''), (''opus'', ''audio/opus''),
      (''mp4'', ''video/mp4''), (''mov'', ''video/quicktime''), (''avi'', ''video/x-msvideo''),
      (''mkv'', ''video/x-matroska''), (''webm'', ''video/webm''), (''mpeg'', ''video/mpeg''),
      (''pdf'', ''application/pdf''),
      (''docx'', ''application/vnd.openxmlformats-officedocument.wordprocessingml.document''),
      (''doc'', ''application/msword''), (''txt'', ''text/plain''),
      (''gdoc'', ''application/vnd.google-apps.document''),
      (''vtt'', ''text/vtt''), (''srt'', ''text/srt'')]"

definition get_mime_type :: "string \<Rightarrow> string" where
  "get_mime_type file_type =
     (if CHR ''/'' \<in> set file_type then file_type
      else case map_of EXTENSION_TO_MIME (lower file_type) of
             None \<Rightarrow> ''application/octet-stream'' | Some m \<Rightarrow> m)"

text \<open>\<open>text.split()\<close>: the pieces of the text between runs of white space.\<close>

fun split_ws :: "string \<Rightarrow> string \<Rightarrow> string list" where
  "split_ws cur [] = (if cur = [] then [] else [rev cur])"
| "split_ws cur (c # cs) =
     (if is_space c then (if cur = [] then split_ws [] cs else rev cur # split_ws [] cs)
      else split_ws (c # cur) cs)"

definition str_split :: "string \<Rightarrow> string list" where
  "str_split s = split_ws [] s"

text \<open>
  What the services called by the two extraction handlers give: the download of the raw
  file from the object store (its size in bytes), the download from the external source
  (size and MIME type), the transcription and the document parser (per MIME type), the two
  uploads (the path stored), and the remote procedure call of the give-up branch.
\<close>

record services =
  sv_load_raw_document :: "exn + nat"
  sv_download_from_google_drive :: "exn + nat \<times> string"
  sv_transcribe_audio_video :: "string \<Rightarrow> exn + string"
  sv_extract_document_text :: "string \<Rightarrow> exn + string"
  sv_store_extracted_text :: "exn + string"
  sv_store_raw_document :: "exn + string"
  sv_rpc_jsonb_set :: "exn + dict"

definition update_document :: "string \<Rightarrow> (document \<Rightarrow> document) \<Rightarrow> world \<Rightarrow> world" where
  "update_document did f w =
     w\<lparr>documents := map (\<lambda>d. if doc_id d = did then f d else d) (documents w)\<rparr>"

definition extract_text :: "services \<Rightarrow> string \<Rightarrow> exn + string" where
  "extract_text svc mime_type =
     (if is_audio_video_file mime_type then sv_transcribe_audio_video svc mime_type
      else sv_extract_document_text svc mime_type)"

definition file_size_mb :: "nat \<Rightarrow> real" where
  "file_size_mb n = real n / (1024 * 1024)"

text \<open>The body of the \<open>try\<close> of \<open>extract_task\<close> after the phase row has been inserted.\<close>

definition extract_try ::
  "services \<Rightarrow> (nat \<Rightarrow> real) \<Rightarrow> nat \<Rightarrow> string \<Rightarrow> string \<Rightarrow> task_kwargs \<Rightarrow> nat \<Rightarrow> world
     \<Rightarrow> (exn + dict) \<times> world" where
  "extract_try svc clock pipeline_job_id document_id raw_location kw phase_id w =
     (case sv_load_raw_document svc of
        Inl e \<Rightarrow> (Inl e, w)
      | Inr n_bytes \<Rightarrow>
          let file_type = (case kw_file_type kw of None \<Rightarrow> ''unknown'' | Some f \<Rightarrow> f);
              mime_type = get_mime_type file_type
          in case extract_text svc mime_type of
               Inl e \<Rightarrow> (Inl e, w)
             | Inr text_content \<Rightarrow>
                 let text_length = length text_content;
                     word_count = length (str_split text_content)
                 in if text_length = 0
                    then (Inl (builtin_exn ''ValueError'' ''No text extracted from file''), w)
                    else
                      (case sv_store_extracted_text svc of
                         Inl e \<Rightarrow> (Inl e, w)
                       | Inr text_location \<Rightarrow>
                           let w1 = log_event (UpdatePhase phase_id ''completed'' None)
                                      (update_phase phase_id
                                         (\<lambda>p. p\<lparr>pp_status := ''completed'',
                                              pp_completed_at := Some (clock 2),
                                              pp_output_location := Some text_location,
                                              pp_metadata :=
                                                [(''text_length'', JInt (int text_length)),
                                                 (''word_count'', JInt (int word_count)),
                                                 (''file_size_mb'', JReal (file_size_mb n_bytes))]\<rparr>)
                                         w);
                               w2 = log_event (UpdateJob pipeline_job_id ''chunking'')
                                      (update_job pipeline_job_id
                                         (\<lambda>j. j\<lparr>pj_current_phase := ''chunking'',
                                              pj_updated_at := Some (clock 3)\<rparr>) w1);
                               w3 = enqueue_task ''chunking'' pipeline_job_id document_id
                                      (Some text_location) w2
                           in (Inr [(''status'', JStr ''success''),
                                    (''document_id'', JStr document_id),
                                    (''text_length'', JInt (int text_length)),
                                    (''word_count'', JInt (int word_count))], w3)))"

definition extract_task ::
  "services \<Rightarrow> (nat \<Rightarrow> real) \<Rightarrow> nat \<Rightarrow> string \<Rightarrow> string \<Rightarrow> nat \<Rightarrow> nat option \<Rightarrow> task_kwargs
     \<Rightarrow> world \<Rightarrow> (exn + dict) \<times> world" where
  "extract_task svc clock pipeline_job_id document_id raw_location retry_count parent_phase_id
       kw w =
     (let w0 = clear_retry_metadata (clock 0) pipeline_job_id retry_count w;
          (phase_id, w1) = insert_processing_phase (clock 1) pipeline_job_id ''extraction''
                             ''extraction'' (Some raw_location) retry_count parent_phase_id w0
      in case extract_try svc clock pipeline_job_id document_id raw_location kw phase_id w1 of
           (Inr d, w2) \<Rightarrow> (Inr d, w2)
         | (Inl e, w2) \<Rightarrow>
             except_block clock ''extraction'' [(''extraction'', Some phase_id)]
               (Some raw_location) (Some (sv_rpc_jsonb_set svc)) pipeline_job_id document_id
               retry_count e w2)"

text \<open>
  The part of \<open>ingest_extract_task\<close> after the extraction phase row has been inserted;
  \<open>fail\<close> is the \<open>except\<close> block with both phase rows known.
\<close>

definition ingest_extract_finish ::
  "services \<Rightarrow> (nat \<Rightarrow> real) \<Rightarrow> nat \<Rightarrow> string \<Rightarrow> task_kwargs \<Rightarrow> string \<Rightarrow> nat
     \<Rightarrow> (exn \<Rightarrow> world \<Rightarrow> (exn + dict) \<times> world) \<Rightarrow> world \<Rightarrow> (exn + dict) \<times> world" where
  "ingest_extract_finish svc clock pipeline_job_id document_id kw mime_type extract_phase_id
       fail w =
     (case extract_text svc mime_type of
        Inl e \<Rightarrow> fail e w
      | Inr text_content \<Rightarrow>
          let text_length = length text_content;
              word_count = length (str_split text_content);
              store_raw = (case kw_store_raw kw of None \<Rightarrow> False | Some b \<Rightarrow> b)
          in if text_length = 0 \<or> word_count = 0 then
               (let w1 = log_event (UpdatePhase extract_phase_id ''completed'' None)
                           (update_phase extract_phase_id
                              (\<lambda>p. p\<lparr>pp_status := ''completed'',
                                   pp_completed_at := Some (clock 6),
                                   pp_output_location := None,
                                   pp_metadata :=
                                     [(''empty_extraction'', JBool True),
                                      (''reason'', JStr ''No text content extracted (file may have no speech or readable text)'')]\<rparr>)
                              w);
                    w2 = log_event (UpdateJob pipeline_job_id ''completed'')
                           (update_job pipeline_job_id
                              (\<lambda>j. j\<lparr>pj_current_phase := ''completed'',
                                   pj_status := ''completed'',
                                   pj_completed_at := Some (clock 7),
                                   pj_updated_at := Some (clock 8)\<rparr>) w1);
                    w3 = log_event (UpdateDocument document_id ''available_to_ai'')
                           (update_document document_id
                              (\<lambda>d. d\<lparr>doc_status := ''available_to_ai'',
                                   doc_updated_at := Some (clock 9)\<rparr>) w2)
                in (Inr [(''status'', JStr ''success''), (''document_id'', JStr document_id),
                         (''empty_extraction'', JBool True),
                         (''message'', JStr ''File processed but contained no extractable text content'')],
                    w3))
             else
               (case sv_store_extracted_text svc of
                  Inl e \<Rightarrow> fail e w
                | Inr text_location \<Rightarrow>
                    (case (if store_raw then map_sum id Some (sv_store_raw_document svc)
                           else Inr None) of
                       Inl e \<Rightarrow> fail e w
                     | Inr raw_stored_at \<Rightarrow>
                         let w1 = log_event (UpdatePhase extract_phase_id ''completed'' None)
                                    (update_phase extract_phase_id
                                       (\<lambda>p. p\<lparr>pp_status := ''completed'',
                                            pp_completed_at := Some (clock 10),
                                            pp_output_location := Some text_location,
                                            pp_metadata :=
                                              [(''text_length'', JInt (int text_length)),
                                               (''word_count'', JInt (int word_count)),
                                               (''raw_stored'', JBool store_raw),
                                               (''raw_location'',
                                                  (case raw_stored_at of None \<Rightarrow> JNone
                                                   | Some l \<Rightarrow> JStr l))]\<rparr>) w);
                             w2 = log_event (UpdateJob pipeline_job_id ''chunking'')
                                    (update_job pipeline_job_id
                                       (\<lambda>j. j\<lparr>pj_current_phase := ''chunking'',
                                            pj_updated_at := Some (clock 11)\<rparr>) w1);
                             w3 = enqueue_task ''chunking'' pipeline_job_id document_id
                                    (Some text_location) w2
                         in (Inr [(''status'', JStr ''success''),
                                  (''document_id'', JStr document_id),
                                  (''text_length'', JInt (int text_length)),
                                  (''word_count'', JInt (int word_count)),
                                  (''raw_stored'', JBool store_raw)], w3))))"

definition ingest_extract_task ::
  "services \<Rightarrow> (nat \<Rightarrow> real) \<Rightarrow> nat \<Rightarrow> string \<Rightarrow> string \<Rightarrow> string \<Rightarrow> nat \<Rightarrow> nat option
     \<Rightarrow> nat option \<Rightarrow> task_kwargs \<Rightarrow> world \<Rightarrow> (exn + dict) \<times> world" where
  "ingest_extract_task svc clock pipeline_job_id document_id source_location file_type
       retry_count parent_ingest_phase_id parent_extract_phase_id kw w =
     (case filter (\<lambda>j. pj_id j = pipeline_job_id) (jobs w) of
        [] \<Rightarrow> (Inr [(''status'', JStr ''skipped''), (''reason'', JStr ''pipeline_job_not_found''),
                     (''document_id'', JStr document_id)], w)
      | job_row # _ \<Rightarrow>
          if pj_status job_row = ''cancelled''
          then (Inr [(''status'', JStr ''skipped''), (''reason'', JStr ''pipeline_job_cancelled''),
                     (''document_id'', JStr document_id)], w)
          else
            let w0 = clear_retry_metadata (clock 0) pipeline_job_id retry_count w;
                (ingest_phase_id, w1) =
                   insert_processing_phase (clock 1) pipeline_job_id ''ingestion'' ''extraction''
                     (Some source_location) retry_count parent_ingest_phase_id w0;
                fail = (\<lambda>extract_phase_id.
                   except_block clock ''ingest_extract''
                     [(''ingestion'', Some ingest_phase_id), (''extraction'', extract_phase_id)]
                     (Some source_location) None pipeline_job_id document_id retry_count)
            in if \<not> starts_with source_location ''gdrive://''
               then fail None (builtin_exn ''ValueError'' ''Unsupported source platform'') w1
               else
                 (case sv_download_from_google_drive svc of
                    Inl e \<Rightarrow> fail None e w1
                  | Inr (n_bytes, mime_type) \<Rightarrow>
                      let w2 = log_event (UpdatePhase ingest_phase_id ''completed'' None)
                                 (update_phase ingest_phase_id
                                    (\<lambda>p. p\<lparr>pp_status := ''completed'',
                                         pp_completed_at := Some (clock 2),
                                         pp_output_location := None,
                                         pp_metadata :=
                                           [(''file_size_mb'', JReal (file_size_mb n_bytes)),
                                            (''mime_type'', JStr mime_type)]\<rparr>) w1);
                          w3 = log_event (UpdateJob pipeline_job_id ''extraction'')
                                 (update_job pipeline_job_id
                                    (\<lambda>j. j\<lparr>pj_current_phase := ''extraction'',
                                         pj_updated_at := Some (clock 3)\<rparr>) w2);
                          (extract_phase_id, w4) =
                             insert_processing_phase (clock 4) pipeline_job_id ''extraction''
                               ''extraction'' (Some source_location) retry_count
                               parent_extract_phase_id w3
                      in ingest_extract_finish svc clock pipeline_job_id document_id kw
                           mime_type extract_phase_id (fail (Some extract_phase_id)) w4))"

subsection \<open>Worlds used in the examples\<close>

definition world_empty :: world where
  "world_empty = \<lparr>jobs = [], phases = [], documents = [], chunks = [], mappings = [],
     queue = [], trace = []\<rparr>"

text \<open>A job row and a phase row as the cancellation writes them.\<close>

definition cancelled_job :: "real \<Rightarrow> pipeline_job \<Rightarrow> pipeline_job" where
  "cancelled_job now j = j\<lparr>pj_status := ''cancelled'', pj_completed_at := Some now\<rparr>"

definition cancelled_phase :: "real \<Rightarrow> pipeline_phase \<Rightarrow> pipeline_phase" where
  "cancelled_phase now p = p\<lparr>pp_status := ''cancelled'', pp_completed_at := Some now,
     pp_error_message := Some ''Document was deleted''\<rparr>"

definition example_job :: "nat \<Rightarrow> string \<Rightarrow> string \<Rightarrow> pipeline_job" where
  "example_job i d st = \<lparr>pj_id = i, pj_document_id = d, pj_clerk_org_id = ''org_1'',
     pj_current_phase = ''chunking'', pj_status = st, pj_started_at = Some 10,
     pj_completed_at = None, pj_updated_at = None, pj_metadata = []\<rparr>"

definition example_phase :: "nat \<Rightarrow> nat \<Rightarrow> string \<Rightarrow> string \<Rightarrow> pipeline_phase" where
  "example_phase i j label st = \<lparr>pp_id = i, pp_pipeline_job_id = j, pp_phase = label,
     pp_status = st, pp_input_location = None, pp_output_location = None, pp_retry_count = 0,
     pp_parent_phase_id = None, pp_queued_at = None, pp_started_at = Some 10,
     pp_completed_at = None, pp_expected_completion_at = None, pp_error_type = None,
     pp_error_message = None, pp_metadata = []\<rparr>"

definition cancel_example :: world where
  "cancel_example = world_empty\<lparr>
     jobs := [example_job 1 ''doc-1'' ''processing'', example_job 2 ''doc-1'' ''completed'',
              example_job 3 ''doc-2'' ''processing''],
     phases := [example_phase 1 1 ''extraction'' ''completed'',
                example_phase 2 1 ''chunking'' ''processing'',
                example_phase 3 2 ''kg_ingest'' ''completed'',
                example_phase 4 3 ''extraction'' ''processing'']\<rparr>"







section \<open>Properties of the retry classifier\<close>

lemma full_error_type_dot:
  "exn_module e \<noteq> ''builtins'' \<Longrightarrow> CHR ''.'' \<in> set (full_error_type e)"
  by (simp add: full_error_type_def)

lemma full_not_non_retryable:
  "full_error_type e \<in> set NON_RETRYABLE_ERRORS \<Longrightarrow> exn_name e \<in> set NON_RETRYABLE_ERRORS"
proof (cases "exn_module e = ''builtins''")
  case True
  assume "full_error_type e \<in> set NON_RETRYABLE_ERRORS"
  with True show ?thesis by (simp add: full_error_type_def)
next
  case False
  assume a: "full_error_type e \<in> set NON_RETRYABLE_ERRORS"
  have "\<forall>s \<in> set NON_RETRYABLE_ERRORS. CHR ''.'' \<notin> set s"
    by (simp add: NON_RETRYABLE_ERRORS_def)
  with a full_error_type_dot[OF False] show ?thesis by blast
qed

lemma is_retryable_error_iff:
  "is_retryable_error e sc
     = (exn_name e \<notin> set NON_RETRYABLE_ERRORS \<and> \<not> client_error_status sc)"
  using full_not_non_retryable[of e]
  by (auto simp: is_retryable_error_def Let_def)

text \<open>
  C4 (as amended). The classifier is a priority list. It returns False exactly when the
  class name is one of the non-retryable names or the status code is a 4xx other than
  429, whatever else holds of the exception. In every other case it returns True: in
  particular for ConnectionError, Timeout, ReadTimeout, TimeoutError, the rate-limit
  errors, ServiceUnavailable and PartialIngestError when no such status code comes with
  them, for a 5xx status code when the class name is not a non-retryable one, and for
  every exception that matches no listed case.
\<close>

theorem is_retryable_error_taxonomy:
  "(exn_name e \<in> set [''ValidationError'', ''ValueError'', ''FileNotFoundError'',
        ''InvalidFileFormat'', ''AuthenticationError'', ''PermissionDenied'']
      \<or> (\<exists>c. sc = Some c \<and> 400 \<le> c \<and> c < 500 \<and> c \<noteq> 429)
      \<longrightarrow> \<not> is_retryable_error e sc)
   \<and> (exn_name e \<in> set [''ConnectionError'', ''Timeout'', ''ReadTimeout'', ''TimeoutError'',
        ''RateLimitError'', ''AnthropicRateLimitError'', ''ServiceUnavailable'',
        ''PartialIngestError'']
      \<and> \<not> (\<exists>c. sc = Some c \<and> 400 \<le> c \<and> c < 500 \<and> c \<noteq> 429)
      \<longrightarrow> is_retryable_error e sc)
   \<and> ((\<exists>c. sc = Some c \<and> 500 \<le> c) \<and> exn_name e \<notin> set NON_RETRYABLE_ERRORS
      \<longrightarrow> is_retryable_error e sc)
   \<and> (exn_name e \<notin> set NON_RETRYABLE_ERRORS
      \<and> \<not> (\<exists>c. sc = Some c \<and> 400 \<le> c \<and> c < 500 \<and> c \<noteq> 429)
      \<longrightarrow> is_retryable_error e sc)"
proof -
  have ce: "client_error_status sc = (\<exists>c. sc = Some c \<and> 400 \<le> c \<and> c < 500 \<and> c \<noteq> 429)"
    by (cases sc) (auto simp: client_error_status_def)
  have se: "(\<exists>c. sc = Some c \<and> 500 \<le> c) \<Longrightarrow> \<not> client_error_status sc"
    by (auto simp: client_error_status_def)
  show ?thesis
    unfolding is_retryable_error_iff
    using ce se by (auto simp: NON_RETRYABLE_ERRORS_def)
qed

theorem is_retryable_error_taxonomy_witness:
  "\<not> is_retryable_error (builtin_exn ''ValueError'' ''no audio'') None
   \<and> \<not> is_retryable_error (builtin_exn ''KeyError'' ''k'') (Some 404)
   \<and> is_retryable_error (builtin_exn ''ConnectionError'' ''reset'') None
   \<and> is_retryable_error (builtin_exn ''KeyError'' ''k'') (Some 503)
   \<and> is_retryable_error (builtin_exn ''KeyError'' ''k'') (Some 429)"
  using is_retryable_error_taxonomy [of "builtin_exn ''ValueError'' ''no audio''" None]
    is_retryable_error_taxonomy [of "builtin_exn ''KeyError'' ''k''" "Some 404"]
    is_retryable_error_taxonomy [of "builtin_exn ''ConnectionError'' ''reset''" None]
    is_retryable_error_taxonomy [of "builtin_exn ''KeyError'' ''k''" "Some 503"]
    is_retryable_error_taxonomy [of "builtin_exn ''KeyError'' ''k''" "Some 429"]
  by (simp add: builtin_exn_def NON_RETRYABLE_ERRORS_def)

text \<open>
  C4 as stated fails: a ConnectionError that comes with status code 404 is classified
  as not retryable, because the 4xx test runs before the retryable names are consulted.
\<close>

theorem is_retryable_error_counterexample:
  "\<not> is_retryable_error (builtin_exn ''ConnectionError'' ''connection refused'') (Some 404)"
  by (simp add: is_retryable_error_def builtin_exn_def full_error_type_def
      NON_RETRYABLE_ERRORS_def client_error_status_def)


section \<open>Properties of the token reservation\<close>

lemma sum_nonneg_entries:
  "list_all (\<lambda>(t, n). 0 \<le> n) es \<Longrightarrow> 0 \<le> sum_list (map snd (es :: (real \<times> int) list))"
  by (induction es) auto

lemma live_subset: "set (live now ttl xs) \<subseteq> set xs"
  by (auto simp: live_def split: option.splits)

lemma pruned_nonneg:
  "list_all (\<lambda>(t, n). 0 \<le> n) xs \<Longrightarrow>
   list_all (\<lambda>(t, n). 0 \<le> n) (zremrangebyscore fst hi (live now ttl xs))"
  using live_subset[of now ttl xs]
  by (auto simp: list_all_iff zremrangebyscore_def)

lemma acquire_tokens_over_cap:
  assumes "tpm_limit rl = Some L" "L \<noteq> 0" "L < n" "tokens_nonneg kv"
  shows "fst (fst (acquire_tokens rl n now kv)) = False \<and> tokens_nonneg (snd (acquire_tokens rl n now kv))"
proof -
  let ?es = "zremrangebyscore fst (now - 60) (live now (tpm_ttl kv) (tpm_set kv))"
  have nn: "list_all (\<lambda>(t, n). 0 \<le> n) ?es"
    using assms(4) pruned_nonneg by (simp add: tokens_nonneg_def)
  then have "0 \<le> sum_list (map snd ?es)" by (rule sum_nonneg_entries)
  with assms(3) have "\<not> sum_list (map snd ?es) + n \<le> L" by linarith
  with assms(1,2) nn show ?thesis
    by (simp add: acquire_tokens_def limit_unset_def Let_def tokens_nonneg_def)
qed

lemma reserve_loop_over_cap:
  "tpm_limit rl = Some L \<Longrightarrow> L \<noteq> 0 \<Longrightarrow> L < n \<Longrightarrow> tokens_nonneg kv \<Longrightarrow>
   attempts \<le> max_wait_attempts \<Longrightarrow>
   (\<exists>kv' sl. reserve_loop rl clock rnd n attempts kv sleeps = (max_wait_attempts, kv', sl)
      \<and> length sl = length sleeps + (max_wait_attempts - attempts))"
proof (induction rl clock rnd n attempts kv sleeps rule: reserve_loop.induct)
  case (1 rl clock rnd est attempts kv sleeps)
  show ?case
  proof (cases "attempts < max_wait_attempts")
    case False
    with "1.prems" have "attempts = max_wait_attempts" by simp
    then show ?thesis by (subst reserve_loop.simps) simp
  next
    case True
    from acquire_tokens_over_cap[OF "1.prems"(1,2,3,4), of "clock attempts"]
    obtain w kv' where acq: "acquire_tokens rl est (clock attempts) kv = ((False, w), kv')"
      and nn: "tokens_nonneg kv'"
      by (cases "acquire_tokens rl est (clock attempts) kv") auto
    define aw where "aw = max w (min (2 ^ attempts) 30) * (0.8 + rnd attempts * 0.4)"
    have step: "reserve_loop rl clock rnd est attempts kv sleeps
        = reserve_loop rl clock rnd est (attempts + 1) kv' (sleeps @ [aw])"
      using True acq by (subst reserve_loop.simps) (simp add: aw_def Let_def)
    have "\<exists>kv'' sl. reserve_loop rl clock rnd est (attempts + 1) kv' (sleeps @ [aw])
              = (max_wait_attempts, kv'', sl)
            \<and> length sl = length (sleeps @ [aw]) + (max_wait_attempts - (attempts + 1))"
      using "1.IH"[OF True acq[symmetric] refl refl _ refl refl refl "1.prems"(1,2,3) nn] True
      by (simp add: aw_def)
    with step True show ?thesis by auto
  qed
qed


text \<open>
  C10 (as amended). Let the token limit be configured with a cap other than 0 and let
  the window hold reservations of non-negative counts, as every window written by the
  limiter for non-negative requests does. Then every reservation of more tokens than the
  cap is denied, at every instant and in every such window, the empty one included. Hence
  a context request whose estimated total exceeds such a cap is never admitted: its
  reservation loop is denied 20 times, sleeps 20 times, raises RuntimeError and makes
  no call to the provider.
\<close>

theorem acquire_tokens_over_cap_never_admitted:
  assumes "tpm_limit (limiter svc) = Some L" and "L \<noteq> 0" and "tokens_nonneg kv"
  shows "(\<forall>n now. L < n
            \<longrightarrow> fst (fst (acquire_tokens (limiter svc) n now kv)) = False
              \<and> fst (fst (acquire_tokens (limiter svc) n now kv_empty)) = False)
    \<and> (L < estimated_tokens full_document chunk_txt document_title is_first_chunk
         \<longrightarrow> (let run = generate_chunk_context svc clock rnd answer kv full_document chunk_txt
                          document_title is_first_chunk
             in cr_result run = Inl (builtin_exn ''RuntimeError''
                         ''Failed to acquire TPM capacity after 20 attempts'')
                \<and> cr_denied run = 20 \<and> length (cr_sleeps run) = 20 \<and> cr_llm_calls run = 0))"
proof (intro conjI allI impI)
  have e: "tokens_nonneg kv_empty" by (simp add: tokens_nonneg_def kv_empty_def)
  fix n now
  assume n: "L < n"
  from acquire_tokens_over_cap[OF assms(1,2) n assms(3), of now]
  show "fst (fst (acquire_tokens (limiter svc) n now kv)) = False" by simp
  from acquire_tokens_over_cap[OF assms(1,2) n e, of now]
  show "fst (fst (acquire_tokens (limiter svc) n now kv_empty)) = False" by simp
next
  let ?n = "estimated_tokens full_document chunk_txt document_title is_first_chunk"
  assume n: "L < ?n"
  from reserve_loop_over_cap[OF assms(1,2) n assms(3), of 0 clock rnd "[]"]
  obtain kv' sl where r: "reserve_loop (limiter svc) clock rnd ?n 0 kv [] = (max_wait_attempts, kv', sl)"
    and l: "length sl = max_wait_attempts" by auto
  show "let run = generate_chunk_context svc clock rnd answer kv full_document chunk_txt
                          document_title is_first_chunk
             in cr_result run = Inl (builtin_exn ''RuntimeError''
                         ''Failed to acquire TPM capacity after 20 attempts'')
                \<and> cr_denied run = 20 \<and> length (cr_sleeps run) = 20 \<and> cr_llm_calls run = 0"
    using r l by (simp add: generate_chunk_context_def Let_def max_wait_attempts_def)
qed

theorem acquire_tokens_over_cap_never_admitted_witness:
  "fst (fst (acquire_tokens (limiter (get_chunking_service 2 50)) 51 7 kv_empty)) = False
   \<and> (50::int) < estimated_tokens ''doc'' ''abc'' None False
   \<and> cr_denied (generate_chunk_context (get_chunking_service 2 50) (\<lambda>i. real i) (\<lambda>i. 1 / 2)
        (LlmText ''x'') kv_empty ''doc'' ''abc'' None False) = 20
   \<and> cr_llm_calls (generate_chunk_context (get_chunking_service 2 50) (\<lambda>i. real i) (\<lambda>i. 1 / 2)
        (LlmText ''x'') kv_empty ''doc'' ''abc'' None False) = 0"
proof -
  have h1: "tpm_limit (limiter (get_chunking_service 2 50)) = Some 50"
    by (simp add: get_chunking_service_def)
  have h2: "(50::int) \<noteq> 0" by simp
  have h4: "tokens_nonneg kv_empty" by (simp add: tokens_nonneg_def kv_empty_def)
  have h5: "estimated_tokens ''doc'' ''abc'' None False = 105"
    by (simp add: estimated_tokens_def estimate_tokens_def user_content_def)
  note t = acquire_tokens_over_cap_never_admitted [OF h1 h2 h4, where full_document = "''doc''"
      and chunk_txt = "''abc''" and document_title = None and is_first_chunk = False
      and clock = "\<lambda>i. real i" and rnd = "\<lambda>i. 1 / 2" and answer = "LlmText ''x''",
      unfolded Let_def h5]
  from t have a: "fst (fst (acquire_tokens (limiter (get_chunking_service 2 50)) 51 7 kv_empty)) = False"
    by simp
  from t have b: "cr_denied (generate_chunk_context (get_chunking_service 2 50) (\<lambda>i. real i) (\<lambda>i. 1 / 2)
        (LlmText ''x'') kv_empty ''doc'' ''abc'' None False) = 20
   \<and> cr_llm_calls (generate_chunk_context (get_chunking_service 2 50) (\<lambda>i. real i) (\<lambda>i. 1 / 2)
        (LlmText ''x'') kv_empty ''doc'' ''abc'' None False) = 0" by simp
  from a b show ?thesis unfolding h5 by simp
qed

text \<open>
  C10 as stated fails for the cap 0: the limiter reads a cap of 0 as no limit, so with
  \<open>ANTHROPIC_TPM_LIMIT=0\<close> every reservation is admitted at once and the request above
  the cap reaches the provider.
\<close>

theorem acquire_tokens_cap_zero_counterexample:
  "tpm_limit (limiter (get_chunking_service 2 0)) = Some 0
   \<and> acquire_tokens (limiter (get_chunking_service 2 0)) 105 7 kv_empty = ((True, 0), kv_empty)
   \<and> estimated_tokens ''doc'' ''abc'' None False = 105
   \<and> cr_result (generate_chunk_context (get_chunking_service 2 0) (\<lambda>i. real i) (\<lambda>i. 1 / 2)
        (LlmText ''x'') kv_empty ''doc'' ''abc'' None False) = Inr ''x''
   \<and> cr_denied (generate_chunk_context (get_chunking_service 2 0) (\<lambda>i. real i) (\<lambda>i. 1 / 2)
        (LlmText ''x'') kv_empty ''doc'' ''abc'' None False) = 0
   \<and> cr_llm_calls (generate_chunk_context (get_chunking_service 2 0) (\<lambda>i. real i) (\<lambda>i. 1 / 2)
        (LlmText ''x'') kv_empty ''doc'' ''abc'' None False) = 1"
proof -
  have a: "\<And>n now. acquire_tokens (limiter (get_chunking_service 2 0)) n now kv_empty
      = ((True, 0), kv_empty)"
    by (simp add: acquire_tokens_def get_chunking_service_def limit_unset_def)
  have h5: "estimated_tokens ''doc'' ''abc'' None False = 105"
    by (simp add: estimated_tokens_def estimate_tokens_def user_content_def)
  have r: "reserve_loop (limiter (get_chunking_service 2 0)) (\<lambda>i. real i) (\<lambda>i. 1 / 2) 105 0
      kv_empty [] = (0, kv_empty, [])"
    by (subst reserve_loop.simps) (simp add: a max_wait_attempts_def)
  show ?thesis
    using a r h5
    by (simp add: generate_chunk_context_def Let_def max_wait_attempts_def strip_def
        is_space_def get_chunking_service_def)
qed

section \<open>Properties of chunk\_document\<close>

text \<open>
  C7 (as amended). For the configured service (chunk budget 800), every input text whose
  stripped form has at least 4 characters and an estimated token count (length of the
  stripped text divided by 4) below 800 gives exactly one chunk and no request to the
  provider: its text is the stripped text, its context is the supplied title when that is
  a non-empty string and "Short document" when the title is missing or empty, its
  token count is the estimate, its index is 0 and its character span is
  [0, length of the stripped text). Every input text that is empty after stripping
  raises ValueError, with no request to the provider.
\<close>

theorem chunk_document_short:
  assumes "svc = get_chunking_service max_concurrent tpm"
    and "txt = strip text0"
  shows "(4 \<le> length txt \<and> estimate_tokens txt < 800
      \<longrightarrow> chunk_document svc first gather text0 document_title
          = Some \<lparr>cd_result = Inr [\<lparr>chunk_text = txt,
                     chunk_context = title_or_default document_title,
                     chunk_index = 0, char_start = 0, char_end = int (length txt),
                     token_count = estimate_tokens txt\<rparr>],
                   cd_llm_requests = 0\<rparr>)
    \<and> (\<forall>t. document_title = Some t \<and> t \<noteq> [] \<longrightarrow> title_or_default document_title = t)
    \<and> (document_title = None \<or> document_title = Some [] \<longrightarrow>
          title_or_default document_title = ''Short document'')
    \<and> (txt = []
      \<longrightarrow> chunk_document svc first gather text0 document_title
          = Some \<lparr>cd_result = Inl (builtin_exn ''ValueError'' ''Document text is empty''),
                   cd_llm_requests = 0\<rparr>)"
proof -
  have short: "chunk_document svc first gather text0 document_title
          = Some \<lparr>cd_result = Inr [\<lparr>chunk_text = txt,
                     chunk_context = title_or_default document_title,
                     chunk_index = 0, char_start = 0, char_end = int (length txt),
                     token_count = estimate_tokens txt\<rparr>],
                   cd_llm_requests = 0\<rparr>"
    if h: "4 \<le> length txt \<and> estimate_tokens txt < 800"
  proof -
    from h have l4: "4 \<le> length txt" by simp
    from l4 have ne: "txt \<noteq> []" by (cases "txt") auto
    from l4 have pos: "0 < estimate_tokens txt" by (simp add: estimate_tokens_def)
    from ne have len: "0 < int (length txt)" by simp
    show ?thesis
      using ne pos len h
      by (simp add: chunk_document_def assms(1) assms(2)[symmetric] get_chunking_service_def
          Let_def Chunk_def)
  qed
  have empty: "chunk_document svc first gather text0 document_title
          = Some \<lparr>cd_result = Inl (builtin_exn ''ValueError'' ''Document text is empty''),
                   cd_llm_requests = 0\<rparr>"
    if h: "txt = []"
    using h by (simp add: chunk_document_def assms(2)[symmetric] Let_def)
  have t: "(\<forall>t. document_title = Some t \<and> t \<noteq> [] \<longrightarrow> title_or_default document_title = t)
    \<and> (document_title = None \<or> document_title = Some [] \<longrightarrow>
          title_or_default document_title = ''Short document'')"
    by (auto simp: title_or_default_def)
  from short empty t show ?thesis by blast
qed

theorem chunk_document_short_witness:
  "chunk_document (get_chunking_service 2 50000) (Inr ''unused'') (\<lambda>k b. WaveContexts [])
       ''  Hello world.  '' (Some ''Greeting'')
   = Some \<lparr>cd_result = Inr [\<lparr>chunk_text = ''Hello world.'', chunk_context = ''Greeting'',
               chunk_index = 0, char_start = 0, char_end = 12, token_count = 3\<rparr>],
            cd_llm_requests = 0\<rparr>
   \<and> chunk_document (get_chunking_service 2 50000) (Inr ''unused'') (\<lambda>k b. WaveContexts [])
       [CHR 0x20, CHR 0x09, CHR 0x0A] None
   = Some \<lparr>cd_result = Inl (builtin_exn ''ValueError'' ''Document text is empty''),
            cd_llm_requests = 0\<rparr>"
  using chunk_document_short [of "get_chunking_service 2 50000" 2 50000 "''Hello world.''"
      "''  Hello world.  ''" "Inr ''unused''" "\<lambda>k b. WaveContexts []" "Some ''Greeting''"]
    chunk_document_short [of "get_chunking_service 2 50000" 2 50000 "[]"
      "[CHR 0x20, CHR 0x09, CHR 0x0A]" "Inr ''unused''" "\<lambda>k b. WaveContexts []" None]
  by (simp add: strip_def is_space_def estimate_tokens_def title_or_default_def)

text \<open>
  C7 as stated fails. A text of one to three characters has the estimate 0, which the
  \<open>Chunk\<close> model rejects; a text of white space only is non-empty but is refused as empty
  after stripping; and an empty title is replaced by "Short document".
\<close>

theorem chunk_document_short_counterexample:
  "chunk_document (get_chunking_service 2 50000) (Inr ''unused'') (\<lambda>k b. WaveContexts [])
       ''ab'' (Some ''Title'')
     = Some \<lparr>cd_result = Inl (pydantic_validation_error ''validation error for Chunk''),
              cd_llm_requests = 0\<rparr>
   \<and> chunk_document (get_chunking_service 2 50000) (Inr ''unused'') (\<lambda>k b. WaveContexts [])
       ''   '' (Some ''Title'')
     = Some \<lparr>cd_result = Inl (builtin_exn ''ValueError'' ''Document text is empty''),
              cd_llm_requests = 0\<rparr>
   \<and> chunk_document (get_chunking_service 2 50000) (Inr ''unused'') (\<lambda>k b. WaveContexts [])
       ''Hello world.'' (Some [])
     = Some \<lparr>cd_result = Inr [\<lparr>chunk_text = ''Hello world.'', chunk_context = ''Short document'',
                 chunk_index = 0, char_start = 0, char_end = 12, token_count = 3\<rparr>],
              cd_llm_requests = 0\<rparr>"
  by (simp add: chunk_document_def get_chunking_service_def strip_def is_space_def
      estimate_tokens_def Chunk_def Let_def title_or_default_def)



section \<open>Properties of the wave loop\<close>

lemma py_slice_nonempty:
  "0 \<le> i \<Longrightarrow> i < int (length xs) \<Longrightarrow> 0 < bs \<Longrightarrow>
   py_slice xs i (min (i + bs) (int (length xs))) \<noteq> []"
  by (auto simp: py_slice_def Let_def min_def)

lemma ceil_div_unfold:
  assumes "0 < (bs::int)"
  shows "(m + bs - 1) div bs = (m - 1) div bs + 1"
proof -
  have "m + bs - 1 = (m - 1) + bs" by simp
  then show ?thesis using assms by (simp only: div_add_self2)
qed

lemma total_batches_step:
  assumes "0 < bs" "0 \<le> i" "i < n"
  shows "(n - min (i + bs) n + bs - 1) div bs = (n - i + bs - 1) div bs - (1::int)"
proof (cases "i + bs \<le> n")
  case True
  then have "n - min (i + bs) n + bs - 1 = n - i - 1" by simp
  then show ?thesis using ceil_div_unfold[OF assms(1), of "n - i"] by simp
next
  case False
  then have m: "n - min (i + bs) n + bs - 1 = bs - 1" by simp
  have z: "(bs - 1) div bs = 0" using assms(1) by (simp add: div_pos_pos_trivial)
  have "0 \<le> n - i - 1" "n - i - 1 < bs" using assms False by auto
  then have "(n - i - 1) div bs = 0" by (simp add: div_pos_pos_trivial)
  then show ?thesis using ceil_div_unfold[OF assms(1), of "n - i"] m z by simp
qed

lemma total_batches_pos:
  assumes "0 < bs" "i < n"
  shows "1 \<le> (n - i + bs - 1) div (bs::int)"
proof -
  have "0 \<le> (n - i - 1) div bs" using assms by (simp add: pos_imp_zdiv_nonneg_iff)
  then show ?thesis using ceil_div_unfold[OF assms(1), of "n - i"] by simp
qed


lemma wave_loop_done:
  "\<not> i < int (length rem) \<Longrightarrow>
   wave_loop bs gather rem i r a q ctx sl
     = Some \<lparr>wr_result = Inr ctx, wr_attempts = a, wr_requests = q, wr_sleeps = sl\<rparr>"
  by (subst wave_loop.simps) simp

lemma wave_loop_success:
  assumes "0 < bs" "0 \<le> i" "i < int (length rem)"
    and "gather a (py_slice rem i (min (i + bs) (int (length rem)))) = WaveContexts cs"
  shows "wave_loop bs gather rem i r a q ctx sl
     = wave_loop bs gather rem (min (i + bs) (int (length rem))) 0 (a + 1)
         (q + length (py_slice rem i (min (i + bs) (int (length rem))))) (ctx @ cs)
         (if min (i + bs) (int (length rem)) < int (length rem) then sl @ [batch_delay] else sl)"
  using assms py_slice_nonempty[OF assms(2,3,1)]
  by (subst wave_loop.simps) (simp add: Let_def)

lemma wave_loop_rate_limited:
  assumes "0 < bs" "0 \<le> i" "i < int (length rem)"
    and "gather a (py_slice rem i (min (i + bs) (int (length rem)))) = WaveRaises e"
    and "is_AnthropicRateLimitError e" and "r < 10"
  shows "wave_loop bs gather rem i r a q ctx sl
     = wave_loop bs gather rem i (r + 1) (a + 1)
         (q + length (py_slice rem i (min (i + bs) (int (length rem))))) ctx
         (sl @ [real_of_int (rate_limit_wait (exn_retry_after e))])"
  using assms py_slice_nonempty[OF assms(2,3,1)]
  by (subst wave_loop.simps) (simp add: Let_def max_rate_limit_retries_def)

lemma wave_loop_cap_exceeded:
  assumes "0 < bs" "0 \<le> i" "i < int (length rem)"
    and "gather a (py_slice rem i (min (i + bs) (int (length rem)))) = WaveRaises e"
    and "is_AnthropicRateLimitError e" and "10 \<le> r"
  shows "wave_loop bs gather rem i r a q ctx sl
     = Some \<lparr>wr_result = Inl e, wr_attempts = a + 1,
              wr_requests = q + length (py_slice rem i (min (i + bs) (int (length rem)))),
              wr_sleeps = sl\<rparr>"
  using assms py_slice_nonempty[OF assms(2,3,1)]
  by (subst wave_loop.simps) (simp add: Let_def max_rate_limit_retries_def)

lemma wave_loop_other_error:
  assumes "0 < bs" "0 \<le> i" "i < int (length rem)"
    and "gather a (py_slice rem i (min (i + bs) (int (length rem)))) = WaveRaises e"
    and "\<not> is_AnthropicRateLimitError e"
  shows "wave_loop bs gather rem i r a q ctx sl
     = Some \<lparr>wr_result = Inl e, wr_attempts = a + 1,
              wr_requests = q + length (py_slice rem i (min (i + bs) (int (length rem)))),
              wr_sleeps = sl\<rparr>"
  using assms py_slice_nonempty[OF assms(2,3,1)]
  by (subst wave_loop.simps) (simp add: Let_def)

lemma wave_loop_terminates:
  assumes bs: "0 < bs"
  shows "0 \<le> i \<Longrightarrow> 0 \<le> r \<Longrightarrow> r \<le> 10 \<Longrightarrow> i < int (length rem) \<Longrightarrow>
     \<exists>run. wave_loop bs gather rem i r a q ctx sl = Some run
       \<and> int (wr_attempts run) + r \<le> int a + 11 * ((int (length rem) - i + bs - 1) div bs)"
proof (induction "nat (11 * (int (length rem) - i) + (10 - r))" arbitrary: i r a q ctx sl
    rule: less_induct)
  case less
  let ?n = "int (length rem)"
  let ?e = "min (i + bs) ?n"
  let ?b = "py_slice rem i ?e"
  let ?W = "\<lambda>j. (?n - j + bs - 1) div bs"
  have W1: "1 \<le> ?W i" using total_batches_pos[OF bs less.prems(4)] .
  have Ws: "?W ?e = ?W i - 1" using total_batches_step[OF bs less.prems(1,4)] .
  show ?case
  proof (cases "gather a ?b")
    case (WaveContexts cs)
    note step = wave_loop_success[where gather=gather and a=a, OF bs less.prems(1,4) WaveContexts, of r q ctx sl]
    show ?thesis
    proof (cases "?e < ?n")
      case True
      have m: "nat (11 * (?n - ?e) + (10 - 0)) < nat (11 * (?n - i) + (10 - r))"
        using bs less.prems by (auto simp: min_def)
      have e0: "0 \<le> ?e" using bs less.prems by auto
      from less.hyps[OF m e0 _ _ True, of "a + 1" "q + length ?b" "ctx @ cs"
          "if ?e < ?n then sl @ [batch_delay] else sl"]
      obtain run where r: "wave_loop bs gather rem ?e 0 (a + 1) (q + length ?b) (ctx @ cs)
            (if ?e < ?n then sl @ [batch_delay] else sl) = Some run"
        and b: "int (wr_attempts run) + 0 \<le> int (a + 1) + 11 * ?W ?e" by auto
      from b Ws less.prems(3) have "int (wr_attempts run) + r \<le> int a + 11 * ?W i" by simp
      with r step show ?thesis by simp
    next
      case False
      from wave_loop_done[OF False, of bs gather 0 "a + 1" "q + length ?b" "ctx @ cs"
          "if ?e < ?n then sl @ [batch_delay] else sl"] step W1 less.prems(3)
      show ?thesis by simp
    qed
  next
    case (WaveRaises e)
    show ?thesis
    proof (cases "is_AnthropicRateLimitError e")
      case False
      from wave_loop_other_error[where gather=gather and a=a, OF bs less.prems(1,4) WaveRaises False, of r q ctx sl]
        W1 less.prems(3)
      show ?thesis by simp
    next
      case True
      show ?thesis
      proof (cases "r < 10")
        case False
        then have "10 \<le> r" by simp
        from wave_loop_cap_exceeded[where gather=gather and a=a, OF bs less.prems(1,4) WaveRaises True this, of q ctx sl]
          W1 less.prems(3)
        show ?thesis by simp
      next
        case r10: True
        note step = wave_loop_rate_limited[where gather=gather and a=a, OF bs less.prems(1,4) WaveRaises True r10, of q ctx sl]
        have m: "nat (11 * (?n - i) + (10 - (r + 1))) < nat (11 * (?n - i) + (10 - r))"
          using less.prems r10 by auto
        from less.hyps[OF m less.prems(1) _ _ less.prems(4), of "a + 1" "q + length ?b" ctx
            "sl @ [real_of_int (rate_limit_wait (exn_retry_after e))]"] r10 less.prems(2)
        obtain run where r: "wave_loop bs gather rem i (r + 1) (a + 1) (q + length ?b) ctx
              (sl @ [real_of_int (rate_limit_wait (exn_retry_after e))]) = Some run"
          and b: "int (wr_attempts run) + (r + 1) \<le> int (a + 1) + 11 * ?W i" by auto
        from b have "int (wr_attempts run) + r \<le> int a + 11 * ?W i" by simp
        with r step show ?thesis by simp
      qed
    qed
  qed
qed


lemma rate_limit_error_retryable:
  "is_AnthropicRateLimitError e \<Longrightarrow> is_retryable_error e None"
  by (simp add: is_retryable_error_iff is_AnthropicRateLimitError_def NON_RETRYABLE_ERRORS_def
      client_error_status_def)

text \<open>
  C8 (as amended). For a positive wave size the wave loop always returns, after at most
  (number of waves) times 11 wave attempts. On a 429 (an \<open>AnthropicRateLimitError\<close>
  from the wave) with fewer than 10 consecutive retries so far, the loop sleeps for the
  error's Retry-After value when that is present and not 0, and for 60 seconds when it is
  absent or 0, and then retries the same wave without advancing; with 10 consecutive
  retries already made it re-raises that error, which the retry policy classifies as
  retryable. A successful wave resets the counter and moves on to the next wave.
\<close>

theorem wave_loop_bounded:
  assumes "0 < batch_size"
  shows "(\<exists>run. wave_loop batch_size gather remaining 0 0 0 requests contexts [] = Some run
            \<and> int (wr_attempts run) \<le> total_batches batch_size remaining * 11)
    \<and> (\<forall>i r a q ctx sl e.
          0 \<le> i \<and> i < int (length remaining)
          \<and> gather a (py_slice remaining i (min (i + batch_size) (int (length remaining))))
              = WaveRaises e
          \<and> is_AnthropicRateLimitError e
          \<longrightarrow> is_retryable_error e None
            \<and> (r < 10 \<longrightarrow>
                 wave_loop batch_size gather remaining i r a q ctx sl
                   = wave_loop batch_size gather remaining i (r + 1) (a + 1)
                       (q + length (py_slice remaining i
                             (min (i + batch_size) (int (length remaining))))) ctx
                       (sl @ [real_of_int (case exn_retry_after e of None \<Rightarrow> 60
                                | Some x \<Rightarrow> if x = 0 then 60 else x)]))
            \<and> (10 \<le> r \<longrightarrow>
                 (\<exists>run. wave_loop batch_size gather remaining i r a q ctx sl = Some run
                    \<and> wr_result run = Inl e \<and> wr_attempts run = a + 1 \<and> wr_sleeps run = sl)))
    \<and> (\<forall>i r a q ctx sl cs.
          0 \<le> i \<and> i < int (length remaining)
          \<and> gather a (py_slice remaining i (min (i + batch_size) (int (length remaining))))
              = WaveContexts cs
          \<longrightarrow> wave_loop batch_size gather remaining i r a q ctx sl
                = wave_loop batch_size gather remaining
                    (min (i + batch_size) (int (length remaining))) 0 (a + 1)
                    (q + length (py_slice remaining i
                          (min (i + batch_size) (int (length remaining))))) (ctx @ cs)
                    (if min (i + batch_size) (int (length remaining)) < int (length remaining)
                     then sl @ [batch_delay] else sl))"
proof -
  let ?n = "int (length remaining)"
  have A: "\<exists>run. wave_loop batch_size gather remaining 0 0 0 requests contexts [] = Some run
            \<and> int (wr_attempts run) \<le> total_batches batch_size remaining * 11"
  proof (cases "remaining = []")
    case True
    have "(batch_size - 1) div batch_size = 0"
      using assms by (simp add: div_pos_pos_trivial)
    with True wave_loop_done[of 0 remaining batch_size gather 0 0 requests contexts "[]"]
    show ?thesis by (simp add: total_batches_def)
  next
    case False
    then have "0 < int (length remaining)" by simp
    from wave_loop_terminates[OF assms _ _ _ this, where r=0 and gather=gather and a=0
        and q=requests and ctx=contexts and sl="[]"]
    show ?thesis by (auto simp: total_batches_def mult.commute)
  qed
  have B: "is_retryable_error e None
            \<and> (r < 10 \<longrightarrow>
                 wave_loop batch_size gather remaining i r a q ctx sl
                   = wave_loop batch_size gather remaining i (r + 1) (a + 1)
                       (q + length (py_slice remaining i (min (i + batch_size) ?n))) ctx
                       (sl @ [real_of_int (case exn_retry_after e of None \<Rightarrow> 60
                                | Some x \<Rightarrow> if x = 0 then 60 else x)]))
            \<and> (10 \<le> r \<longrightarrow>
                 (\<exists>run. wave_loop batch_size gather remaining i r a q ctx sl = Some run
                    \<and> wr_result run = Inl e \<and> wr_attempts run = a + 1 \<and> wr_sleeps run = sl))"
    if h: "0 \<le> i \<and> i < ?n
          \<and> gather a (py_slice remaining i (min (i + batch_size) ?n)) = WaveRaises e
          \<and> is_AnthropicRateLimitError e"
    for i r a q ctx sl e
  proof (intro conjI impI)
    from h show "is_retryable_error e None" by (simp add: rate_limit_error_retryable)
  next
    assume "r < 10"
    with h wave_loop_rate_limited[where gather=gather and a=a and e=e and i=i and r=r,
        OF assms, of remaining q ctx sl]
    show "wave_loop batch_size gather remaining i r a q ctx sl
                   = wave_loop batch_size gather remaining i (r + 1) (a + 1)
                       (q + length (py_slice remaining i (min (i + batch_size) ?n))) ctx
                       (sl @ [real_of_int (case exn_retry_after e of None \<Rightarrow> 60
                                | Some x \<Rightarrow> if x = 0 then 60 else x)])"
      by (simp add: rate_limit_wait_def)
  next
    assume "10 \<le> r"
    with h wave_loop_cap_exceeded[where gather=gather and a=a and e=e and i=i and r=r,
        OF assms, of remaining q ctx sl]
    show "\<exists>run. wave_loop batch_size gather remaining i r a q ctx sl = Some run
                    \<and> wr_result run = Inl e \<and> wr_attempts run = a + 1 \<and> wr_sleeps run = sl"
      by simp
  qed
  have C: "wave_loop batch_size gather remaining i r a q ctx sl
                = wave_loop batch_size gather remaining (min (i + batch_size) ?n) 0 (a + 1)
                    (q + length (py_slice remaining i (min (i + batch_size) ?n))) (ctx @ cs)
                    (if min (i + batch_size) ?n < ?n then sl @ [batch_delay] else sl)"
    if h: "0 \<le> i \<and> i < ?n
          \<and> gather a (py_slice remaining i (min (i + batch_size) ?n)) = WaveContexts cs"
    for i r a q ctx sl cs
    using h wave_loop_success[where gather=gather and a=a and cs=cs and i=i,
        OF assms, of remaining r q ctx sl]
    by simp
  from A B C show ?thesis by blast
qed

theorem wave_loop_bounded_witness:
  "(\<exists>run. wave_loop 2
        (\<lambda>k b. if k = 0 then WaveRaises (AnthropicRateLimitError ''429'' (Some 7))
                else WaveContexts (map (\<lambda>c. ''context'') b))
        [''c1'', ''c2'', ''c3''] 0 0 0 1 [''first''] [] = Some run
      \<and> int (wr_attempts run) \<le> 22)
   \<and> is_retryable_error (AnthropicRateLimitError ''429'' (Some 7)) None"
proof -
  let ?g = "\<lambda>k b. if k = (0::nat) then WaveRaises (AnthropicRateLimitError ''429'' (Some 7))
                else WaveContexts (map (\<lambda>c. ''context'') (b::string list))"
  have p: "(0::int) < 2" by simp
  have tb: "total_batches 2 [''c1'', ''c2'', ''c3''] = 2" by (simp add: total_batches_def)
  have arl: "is_AnthropicRateLimitError (AnthropicRateLimitError ''429'' (Some 7))"
    by (simp add: is_AnthropicRateLimitError_def AnthropicRateLimitError_def)
  note t = wave_loop_bounded[OF p, of ?g "[''c1'', ''c2'', ''c3'']" 1 "[''first'']"]
  from t have a: "\<exists>run. wave_loop 2 ?g [''c1'', ''c2'', ''c3''] 0 0 0 1 [''first''] [] = Some run
      \<and> int (wr_attempts run) \<le> 22" unfolding tb by simp
  from t have "\<forall>i r a q ctx sl e.
          0 \<le> i \<and> i < int (length [''c1'', ''c2'', ''c3''])
          \<and> ?g a (py_slice [''c1'', ''c2'', ''c3''] i (min (i + 2) (int (length [''c1'', ''c2'', ''c3'']))))
              = WaveRaises e
          \<and> is_AnthropicRateLimitError e
          \<longrightarrow> is_retryable_error e None" by blast
  from this[rule_format, of 0 0 "AnthropicRateLimitError ''429'' (Some 7)"] arl
  have b: "is_retryable_error (AnthropicRateLimitError ''429'' (Some 7)) None"
    by (simp add: py_slice_def)
  from a b show ?thesis by blast
qed

text \<open>
  C8 as stated fails in the pause: a 429 whose Retry-After header is 0 pauses the wave
  for 60 seconds, not for the interval the header gives.
\<close>

theorem wave_loop_counterexample:
  "wave_loop 2
     (\<lambda>k b. if k = 0 then WaveRaises (AnthropicRateLimitError ''429'' (parse_retry_after (HeaderInt 0)))
             else WaveContexts (map (\<lambda>c. ''context'') b))
     [''c1''] 0 0 0 1 [''first''] []
   = Some \<lparr>wr_result = Inr [''first'', ''context''], wr_attempts = 2, wr_requests = 3,
            wr_sleeps = [60]\<rparr>"
  by (simp add: wave_loop.simps py_slice_def Let_def is_AnthropicRateLimitError_def
      AnthropicRateLimitError_def parse_retry_after_def rate_limit_wait_def
      max_rate_limit_retries_def)



section \<open>Properties of the sliding windows\<close>

lemma length_filter_insort_key:
  "length (filter P (insort_key f x xs)) = length (filter P (x # xs))"
  by (induction xs) auto

lemma sum_filter_insort_key:
  "sum_list (map g (filter P (insort_key f x xs))) = sum_list (map g (filter P (x # xs)))"
  for g :: "'a \<Rightarrow> int"
  by (induction xs) auto

lemma set_zadd: "set (zadd f x xs) = insert x (set xs)"
  by (auto simp: zadd_def set_insort_key)

lemma pruned_subset: "set (zremrangebyscore f hi (live now ttl xs)) \<subseteq> set xs"
  by (auto simp: zremrangebyscore_def live_def split: option.splits)

text \<open>Pruning at an instant before the end of the window keeps the entries of the window.\<close>

lemma pruned_window_rpm:
  assumes "now < w + 60" "\<forall>d. ttl = Some d \<longrightarrow> (\<forall>t \<in> set xs. t + 61 \<le> d)"
  shows "filter (in_window w) (zremrangebyscore id (now - 60) (live now ttl xs))
       = filter (in_window w) xs"
proof (cases "\<exists>d. ttl = Some d \<and> d \<le> now")
  case True
  then obtain d where d: "ttl = Some d" "d \<le> now" by auto
  with assms have "\<forall>t \<in> set xs. \<not> in_window w t" by (fastforce simp: in_window_def)
  then have "filter (in_window w) xs = []" by (simp add: filter_empty_conv)
  with d show ?thesis by (simp add: live_def zremrangebyscore_def)
next
  case False
  then have "live now ttl xs = xs" by (auto simp: live_def split: option.splits)
  moreover have "filter (in_window w) (filter (\<lambda>x. \<not> (0 \<le> x \<and> x \<le> now - 60)) xs)
      = filter (in_window w) xs"
    using assms(1) by (auto simp: in_window_def intro!: filter_cong)
  ultimately show ?thesis by (simp add: zremrangebyscore_def)
qed

lemma pruned_window_tpm:
  assumes "now < w + 60" "\<forall>d. ttl = Some d \<longrightarrow> (\<forall>e \<in> set xs. fst e + 61 \<le> d)"
  shows "filter (\<lambda>e. in_window w (fst e)) (zremrangebyscore fst (now - 60) (live now ttl xs))
       = filter (\<lambda>e. in_window w (fst e)) xs"
proof (cases "\<exists>d. ttl = Some d \<and> d \<le> now")
  case True
  then obtain d where d: "ttl = Some d" "d \<le> now" by auto
  with assms have "\<forall>e \<in> set xs. \<not> in_window w (fst e)" by (fastforce simp: in_window_def)
  then have "filter (\<lambda>e. in_window w (fst e)) xs = []" by (simp add: filter_empty_conv)
  with d show ?thesis by (simp add: live_def zremrangebyscore_def)
next
  case False
  then have "live now ttl xs = xs" by (auto simp: live_def split: option.splits)
  moreover have "filter (\<lambda>e. in_window w (fst e))
        (filter (\<lambda>x. \<not> (0 \<le> fst x \<and> fst x \<le> now - 60)) xs)
      = filter (\<lambda>e. in_window w (fst e)) xs"
    using assms(1) by (auto simp: in_window_def intro!: filter_cong)
  ultimately show ?thesis by (simp add: zremrangebyscore_def)
qed


lemma acquire_request_inv:
  assumes "rpm_limit rl = Some L" "0 < L" "rpm_inv now kv" "now < now'"
  shows "rpm_inv now' (snd (acquire_request rl now kv))"
proof -
  let ?E = "zremrangebyscore id (now - 60) (live now (rpm_ttl kv) (rpm_set kv))"
  have sub: "set ?E \<subseteq> set (rpm_set kv)" by (rule pruned_subset)
  have lt: "\<forall>t \<in> set ?E. t < now" using sub assms(3) by (auto simp: rpm_inv_def)
  show ?thesis
  proof (cases "int (length ?E) < L")
    case True
    then have "snd (acquire_request rl now kv)
        = kv\<lparr>rpm_set := zadd id now ?E, rpm_ttl := Some (now + 61)\<rparr>"
      using assms(1,2) by (simp add: acquire_request_def limit_unset_def Let_def)
    then show ?thesis using lt assms(4) by (auto simp: rpm_inv_def set_zadd)
  next
    case False
    then have s: "snd (acquire_request rl now kv)
        = kv\<lparr>rpm_set := ?E, rpm_ttl := ttl_after now (rpm_ttl kv) ?E\<rparr>"
      using assms(1,2) by (simp add: acquire_request_def limit_unset_def Let_def)
    have "\<forall>d. ttl_after now (rpm_ttl kv) ?E = Some d \<longrightarrow> (\<forall>t \<in> set ?E. t + 61 \<le> d)"
      using sub assms(3) by (auto simp: ttl_after_def rpm_inv_def split: if_splits)
    then show ?thesis using s lt assms(4) by (auto simp: rpm_inv_def)
  qed
qed

lemma acquire_request_window:
  assumes "rpm_limit rl = Some L" "0 < L" "rpm_inv now kv" "now < w + 60"
    and "int (rpm_window_count w kv) \<le> L"
  shows "rpm_window_count w (snd (acquire_request rl now kv))
       = rpm_window_count w kv
         + (if fst (fst (acquire_request rl now kv)) \<and> in_window w now then 1 else 0)
     \<and> int (rpm_window_count w (snd (acquire_request rl now kv))) \<le> L"
proof -
  let ?E = "zremrangebyscore id (now - 60) (live now (rpm_ttl kv) (rpm_set kv))"
  have sub: "set ?E \<subseteq> set (rpm_set kv)" by (rule pruned_subset)
  have notin: "now \<notin> set ?E" using sub assms(3) by (auto simp: rpm_inv_def)
  have win: "filter (in_window w) ?E = filter (in_window w) (rpm_set kv)"
    using pruned_window_rpm[OF assms(4)] assms(3) by (simp add: rpm_inv_def)
  show ?thesis
  proof (cases "int (length ?E) < L")
    case True
    then have r: "acquire_request rl now kv
        = ((True, 0), kv\<lparr>rpm_set := zadd id now ?E, rpm_ttl := Some (now + 61)\<rparr>)"
      using assms(1,2) by (simp add: acquire_request_def limit_unset_def Let_def)
    have c: "length (filter (in_window w) (zadd id now ?E))
        = length (filter (in_window w) (rpm_set kv)) + (if in_window w now then 1 else 0)"
      using notin win by (simp add: zadd_def length_filter_insort_key)
    have "length (filter (in_window w) (zadd id now ?E)) \<le> length ?E + 1"
      using notin le_SucI[OF length_filter_le[of "in_window w" ?E]]
      by (simp add: zadd_def length_filter_insort_key)
    with True c r show ?thesis by (simp add: rpm_window_count_def)
  next
    case False
    then have r: "acquire_request rl now kv
        = ((False, case ?E of [] \<Rightarrow> 1 | oldest # _ \<Rightarrow> max 0 ((oldest + 60) - now)),
           kv\<lparr>rpm_set := ?E, rpm_ttl := ttl_after now (rpm_ttl kv) ?E\<rparr>)"
      using assms(1,2) by (simp add: acquire_request_def limit_unset_def Let_def)
    with win assms(5) show ?thesis by (simp add: rpm_window_count_def)
  qed
qed

lemma acquire_request_tpm_unchanged:
  "tpm_set (snd (acquire_request rl now kv)) = tpm_set kv
   \<and> tpm_ttl (snd (acquire_request rl now kv)) = tpm_ttl kv"
  by (simp add: acquire_request_def Let_def)

lemma acquire_tokens_rpm_unchanged:
  "rpm_set (snd (acquire_tokens rl n now kv)) = rpm_set kv
   \<and> rpm_ttl (snd (acquire_tokens rl n now kv)) = rpm_ttl kv"
  by (simp add: acquire_tokens_def Let_def)

lemma rpm_inv_mono: "rpm_inv now kv \<Longrightarrow> now \<le> now' \<Longrightarrow> rpm_inv now' kv"
  by (fastforce simp: rpm_inv_def)

lemma rpm_inv_cong:
  "rpm_set kv' = rpm_set kv \<Longrightarrow> rpm_ttl kv' = rpm_ttl kv \<Longrightarrow> rpm_inv now kv' = rpm_inv now kv"
  by (simp add: rpm_inv_def)

lemma granted_requests_after_window:
  "\<forall>c \<in> set cs. w + 60 \<le> fst c \<Longrightarrow> granted_requests w (run_calls rl kv cs) = 0"
proof (induction cs arbitrary: kv)
  case Nil
  then show ?case by simp
next
  case (Cons c cs)
  obtain now cl where c: "c = (now, cl)" by (cases c)
  from Cons.prems c have "\<not> in_window w now" by (simp add: in_window_def)
  with Cons c show ?case by (cases cl) (auto simp: Let_def split: prod.splits)
qed


lemma rpm_bound_gen:
  assumes "rpm_limit rl = Some L" "0 < L"
  shows "sorted_wrt (<) (map fst cs) \<Longrightarrow> \<forall>c \<in> set cs. rpm_inv (fst c) kv \<Longrightarrow>
         int (rpm_window_count w kv) \<le> L \<Longrightarrow>
         int (rpm_window_count w kv + granted_requests w (run_calls rl kv cs)) \<le> L"
proof (induction cs arbitrary: kv)
  case Nil
  then show ?case by simp
next
  case (Cons c cs)
  obtain now cl where c: "c = (now, cl)" by (cases c)
  from Cons.prems(1) c have later: "\<forall>d \<in> set cs. now < fst d" and srt: "sorted_wrt (<) (map fst cs)"
    by auto
  from Cons.prems(2) c have inv: "rpm_inv now kv" by simp
  show ?case
  proof (cases "now < w + 60")
    case False
    with later have "\<forall>d \<in> set (c # cs). w + 60 \<le> fst d" using c by fastforce
    from granted_requests_after_window[OF this] Cons.prems(3) show ?thesis by simp
  next
    case True
    show ?thesis
    proof (cases cl)
      case Request
      let ?r = "acquire_request rl now kv"
      let ?kv' = "snd ?r"
      have run: "run_calls rl kv (c # cs) = (now, Request, fst (fst ?r)) # run_calls rl ?kv' cs"
        using c Request by (simp add: Let_def split: prod.splits)
      note win = acquire_request_window[OF assms inv True Cons.prems(3)]
      have inv': "\<forall>d \<in> set cs. rpm_inv (fst d) ?kv'"
        using later acquire_request_inv[OF assms inv] by blast
      from Cons.IH[OF srt inv' win[THEN conjunct2]] win[THEN conjunct1] run
      show ?thesis by simp
    next
      case (Tokens n)
      let ?kv' = "snd (acquire_tokens rl n now kv)"
      have run: "run_calls rl kv (c # cs)
          = (now, Tokens n, fst (fst (acquire_tokens rl n now kv))) # run_calls rl ?kv' cs"
        using c Tokens by (simp add: Let_def split: prod.splits)
      note same = acquire_tokens_rpm_unchanged[of rl n now kv]
      have cnt: "rpm_window_count w ?kv' = rpm_window_count w kv"
        using same by (simp add: rpm_window_count_def)
      have inv': "\<forall>d \<in> set cs. rpm_inv (fst d) ?kv'"
        using Cons.prems(2) same by (simp add: rpm_inv_def)
      from Cons.IH[OF srt inv'] cnt Cons.prems(3) run show ?thesis by simp
    qed
  qed
qed

lemma window_sum_le:
  "\<forall>e \<in> set es. 0 \<le> snd e \<Longrightarrow>
   sum_list (map snd (filter P es)) \<le> sum_list (map snd (es :: (real \<times> int) list))"
  by (induction es) auto

lemma acquire_tokens_inv:
  assumes "tpm_limit rl = Some T" "0 < T" "tpm_inv now kv" "0 \<le> n" "now < now'"
  shows "tpm_inv now' (snd (acquire_tokens rl n now kv))"
proof -
  let ?E = "zremrangebyscore fst (now - 60) (live now (tpm_ttl kv) (tpm_set kv))"
  have sub: "set ?E \<subseteq> set (tpm_set kv)" by (rule pruned_subset)
  have lt: "\<forall>e \<in> set ?E. fst e < now \<and> 0 \<le> snd e" using sub assms(3) by (auto simp: tpm_inv_def)
  show ?thesis
  proof (cases "sum_list (map snd ?E) + n \<le> T")
    case True
    then have "snd (acquire_tokens rl n now kv)
        = kv\<lparr>tpm_set := zadd fst (now, n) ?E, tpm_ttl := Some (now + 61)\<rparr>"
      using assms(1,2) by (simp add: acquire_tokens_def limit_unset_def Let_def)
    then show ?thesis using lt assms(4,5) by (auto simp: tpm_inv_def set_zadd)
  next
    case False
    then have s: "snd (acquire_tokens rl n now kv)
        = kv\<lparr>tpm_set := ?E, tpm_ttl := ttl_after now (tpm_ttl kv) ?E\<rparr>"
      using assms(1,2) by (simp add: acquire_tokens_def limit_unset_def Let_def)
    have "\<forall>d. ttl_after now (tpm_ttl kv) ?E = Some d \<longrightarrow> (\<forall>e \<in> set ?E. fst e + 61 \<le> d)"
      using sub assms(3) by (fastforce simp: ttl_after_def tpm_inv_def split: if_splits)
    then show ?thesis using s lt assms(5) by (auto simp: tpm_inv_def)
  qed
qed

lemma acquire_tokens_window:
  assumes "tpm_limit rl = Some T" "0 < T" "tpm_inv now kv" "0 \<le> n" "now < w + 60"
    and "tpm_window_sum w kv \<le> T"
  shows "tpm_window_sum w (snd (acquire_tokens rl n now kv))
       = tpm_window_sum w kv
         + (if fst (fst (acquire_tokens rl n now kv)) \<and> in_window w now then n else 0)
     \<and> tpm_window_sum w (snd (acquire_tokens rl n now kv)) \<le> T"
proof -
  let ?E = "zremrangebyscore fst (now - 60) (live now (tpm_ttl kv) (tpm_set kv))"
  let ?P = "\<lambda>e. in_window w (fst e)"
  have sub: "set ?E \<subseteq> set (tpm_set kv)" by (rule pruned_subset)
  have nn: "\<forall>e \<in> set ?E. 0 \<le> snd e" using sub assms(3) by (auto simp: tpm_inv_def)
  have notin: "(now, n) \<notin> set ?E" using sub assms(3) by (fastforce simp: tpm_inv_def)
  have win: "filter ?P ?E = filter ?P (tpm_set kv)"
    using pruned_window_tpm[OF assms(5), of "tpm_ttl kv" "tpm_set kv"] assms(3)
    unfolding tpm_inv_def by blast
  show ?thesis
  proof (cases "sum_list (map snd ?E) + n \<le> T")
    case True
    then have r: "acquire_tokens rl n now kv
        = ((True, 0), kv\<lparr>tpm_set := zadd fst (now, n) ?E, tpm_ttl := Some (now + 61)\<rparr>)"
      using assms(1,2) by (simp add: acquire_tokens_def limit_unset_def Let_def)
    have c: "sum_list (map snd (filter ?P (zadd fst (now, n) ?E)))
        = sum_list (map snd (filter ?P (tpm_set kv))) + (if in_window w now then n else 0)"
      using notin win by (simp add: zadd_def sum_filter_insort_key)
    have "sum_list (map snd (filter ?P (tpm_set kv))) \<le> sum_list (map snd ?E)"
      using window_sum_le[OF nn, of ?P] win by simp
    with True c r assms(4) show ?thesis by (simp add: tpm_window_sum_def)
  next
    case False
    then have r: "acquire_tokens rl n now kv
        = ((False, tokens_wait now ((sum_list (map snd ?E) + n) - T) 0 ?E),
           kv\<lparr>tpm_set := ?E, tpm_ttl := ttl_after now (tpm_ttl kv) ?E\<rparr>)"
      using assms(1,2) by (simp add: acquire_tokens_def limit_unset_def Let_def)
    with win assms(6) show ?thesis by (simp add: tpm_window_sum_def)
  qed
qed

lemma granted_tokens_after_window:
  "\<forall>c \<in> set cs. w + 60 \<le> fst c \<Longrightarrow> granted_tokens w (run_calls rl kv cs) = 0"
proof (induction cs arbitrary: kv)
  case Nil
  then show ?case by simp
next
  case (Cons c cs)
  obtain now cl where c: "c = (now, cl)" by (cases c)
  from Cons.prems c have "\<not> in_window w now" by (simp add: in_window_def)
  with Cons c show ?case by (cases cl) (auto simp: Let_def split: prod.splits)
qed

lemma tpm_bound_gen:
  assumes "tpm_limit rl = Some T" "0 < T"
  shows "sorted_wrt (<) (map fst cs) \<Longrightarrow> token_counts_ok cs \<Longrightarrow>
         \<forall>c \<in> set cs. tpm_inv (fst c) kv \<Longrightarrow> tpm_window_sum w kv \<le> T \<Longrightarrow>
         tpm_window_sum w kv + granted_tokens w (run_calls rl kv cs) \<le> T"
proof (induction cs arbitrary: kv)
  case Nil
  then show ?case by simp
next
  case (Cons c cs)
  obtain now cl where c: "c = (now, cl)" by (cases c)
  from Cons.prems(1) c have later: "\<forall>d \<in> set cs. now < fst d" and srt: "sorted_wrt (<) (map fst cs)"
    by auto
  from Cons.prems(2) have ok: "token_counts_ok cs" by (simp add: token_counts_ok_def)
  from Cons.prems(3) c have inv: "tpm_inv now kv" by simp
  show ?case
  proof (cases "now < w + 60")
    case False
    with later have "\<forall>d \<in> set (c # cs). w + 60 \<le> fst d" using c by fastforce
    from granted_tokens_after_window[OF this] Cons.prems(4) show ?thesis by simp
  next
    case True
    show ?thesis
    proof (cases cl)
      case (Tokens n)
      from Cons.prems(2) c Tokens have n0: "0 \<le> n" by (simp add: token_counts_ok_def)
      let ?r = "acquire_tokens rl n now kv"
      let ?kv' = "snd ?r"
      have run: "run_calls rl kv (c # cs) = (now, Tokens n, fst (fst ?r)) # run_calls rl ?kv' cs"
        using c Tokens by (simp add: Let_def split: prod.splits)
      note win = acquire_tokens_window[OF assms inv n0 True Cons.prems(4)]
      have inv': "\<forall>d \<in> set cs. tpm_inv (fst d) ?kv'"
        using later acquire_tokens_inv[OF assms inv n0] by blast
      from Cons.IH[OF srt ok inv' win[THEN conjunct2]] win[THEN conjunct1] run
      show ?thesis by simp
    next
      case Request
      let ?kv' = "snd (acquire_request rl now kv)"
      have run: "run_calls rl kv (c # cs)
          = (now, Request, fst (fst (acquire_request rl now kv))) # run_calls rl ?kv' cs"
        using c Request by (simp add: Let_def split: prod.splits)
      note same = acquire_request_tpm_unchanged[of rl now kv]
      have cnt: "tpm_window_sum w ?kv' = tpm_window_sum w kv"
        using same by (simp add: tpm_window_sum_def)
      have inv': "\<forall>d \<in> set cs. tpm_inv (fst d) ?kv'"
        using Cons.prems(3) same by (simp add: tpm_inv_def)
      from Cons.IH[OF srt ok inv'] cnt Cons.prems(4) run show ?thesis by simp
    qed
  qed
qed


text \<open>
  C5 (as amended). Take any sequence of \<open>acquire_request\<close> and \<open>acquire_tokens\<close>
  calls of one provider, with non-negative token counts, run one after the other from the
  empty store at strictly increasing clock readings, and any window \<open>[w, w + 60)\<close>.
  If a request cap is configured (a positive number), the requests granted at instants
  of the window are at most the cap; if a token cap is configured, the token counts
  granted at instants of the window sum to at most the cap.
\<close>

theorem rate_limiter_window_bound:
  assumes "sorted_wrt (<) (map fst cs)" and "token_counts_ok cs"
  shows "(\<forall>L. rpm_limit rl = Some L \<and> 0 < L
            \<longrightarrow> int (granted_requests w (run_calls rl kv_empty cs)) \<le> L)
       \<and> (\<forall>T. tpm_limit rl = Some T \<and> 0 < T
            \<longrightarrow> granted_tokens w (run_calls rl kv_empty cs) \<le> T)"
proof (intro conjI allI impI)
  fix L
  assume h: "rpm_limit rl = Some L \<and> 0 < L"
  have i: "\<forall>c \<in> set cs. rpm_inv (fst c) kv_empty" by (simp add: rpm_inv_def kv_empty_def)
  have z: "rpm_window_count w kv_empty = 0" by (simp add: rpm_window_count_def kv_empty_def)
  from rpm_bound_gen[OF h[THEN conjunct1] h[THEN conjunct2] assms(1) i, of w] z h
  show "int (granted_requests w (run_calls rl kv_empty cs)) \<le> L" by simp
next
  fix T
  assume h: "tpm_limit rl = Some T \<and> 0 < T"
  have i: "\<forall>c \<in> set cs. tpm_inv (fst c) kv_empty" by (simp add: tpm_inv_def kv_empty_def)
  have z: "tpm_window_sum w kv_empty = 0" by (simp add: tpm_window_sum_def kv_empty_def)
  from tpm_bound_gen[OF h[THEN conjunct1] h[THEN conjunct2] assms(1,2) i, of w] z h
  show "granted_tokens w (run_calls rl kv_empty cs) \<le> T" by simp
qed

theorem rate_limiter_window_bound_witness:
  "int (granted_requests 100 (run_calls \<lparr>rpm_limit = Some 1, tpm_limit = Some 100\<rparr> kv_empty
          [(100, Request), (101, Tokens 60), (102, Request), (103, Tokens 50)])) \<le> 1
   \<and> granted_tokens 100 (run_calls \<lparr>rpm_limit = Some 1, tpm_limit = Some 100\<rparr> kv_empty
          [(100, Request), (101, Tokens 60), (102, Request), (103, Tokens 50)]) \<le> 100"
  using rate_limiter_window_bound [of "[(100, Request), (101, Tokens 60), (102, Request), (103, Tokens 50)]"
      "\<lparr>rpm_limit = Some 1, tpm_limit = Some 100\<rparr>" 100]
  by (simp add: token_counts_ok_def)

text \<open>
  C5 as stated fails. With a clock that is monotone but shows the same instant twice the
  member of the sorted set is the same, so the count does not grow: with a cap of 2,
  three requests at one instant are all granted. And a request is admitted again exactly
  60 seconds after the one that filled the window, so the closed window \<open>[w, w + 60]\<close>
  can hold one grant more than the cap.
\<close>

theorem rate_limiter_window_counterexample:
  "granted_requests 100 (run_calls \<lparr>rpm_limit = Some 2, tpm_limit = None\<rparr> kv_empty
       [(100, Request), (100, Request), (100, Request)]) = 3
   \<and> granted_requests_closed 100 (run_calls \<lparr>rpm_limit = Some 1, tpm_limit = None\<rparr> kv_empty
       [(100, Request), (160, Request)]) = 2"
  by (simp add: acquire_request_def limit_unset_def live_def zremrangebyscore_def zadd_def
      kv_empty_def in_window_def Let_def)



section \<open>Properties of the submission\<close>

text \<open>
  C9 (as amended). \<open>enqueue_pipeline_job\<close> raises ValueError whenever the location that
  the source platform requires is missing: \<open>raw_location\<close> for a manual upload,
  \<open>source_location\<close> for every other platform; in particular whenever neither location
  is supplied. In that case no phase row is created and nothing is enqueued, although one
  \<open>pipeline_job\<close> row for the document, with status processing, has already been
  inserted. A location that the platform does not use is ignored: whenever both
  locations are supplied and the job insert hands its row back, the call is accepted and
  enqueues exactly one item for the new job, on the extraction queue with
  \<open>raw_location\<close> for a manual upload and on the ingest\_extract queue with
  \<open>source_location\<close> for every other platform.
\<close>

theorem enqueue_pipeline_job_locations:
  assumes "r = enqueue_pipeline_job insert_returns_row clock document_id source_platform
                 clerk_org_id source_name file_type raw_location source_location store_raw w"
  shows "(falsy raw_location \<and> falsy source_location
            \<or> source_platform = ''manual_upload'' \<and> falsy raw_location
            \<or> source_platform \<noteq> ''manual_upload'' \<and> falsy source_location
          \<longrightarrow> (\<exists>e. fst r = Inl e \<and> exn_name e = ''ValueError'')
              \<and> phases (snd r) = phases w \<and> queue (snd r) = queue w
              \<and> (\<exists>j. jobs (snd r) = jobs w @ [j] \<and> pj_document_id j = document_id
                       \<and> pj_status j = ''processing''))
       \<and> (\<not> falsy raw_location \<and> \<not> falsy source_location \<and> insert_returns_row
          \<longrightarrow> (\<exists>q. fst r = Inr (fresh_id (map pj_id (jobs w)), q))
              \<and> queue (snd r) = queue w @
                   [\<lparr>qt_queue = (if source_platform = ''manual_upload'' then ''extraction''
                                  else ''ingest_extract''),
                     qt_pipeline_job_id = fresh_id (map pj_id (jobs w)),
                     qt_document_id = document_id,
                     qt_location = (if source_platform = ''manual_upload'' then raw_location
                                    else source_location),
                     qt_retry_count = 0, qt_parent_phase_ids = [], qt_delay = None\<rparr>])"
  unfolding assms
  by (auto simp: enqueue_pipeline_job_def create_pipeline_job_def Let_def builtin_exn_def
      enqueue_task_def create_skipped_ingestion_phase_def split: prod.splits sum.splits)

theorem enqueue_pipeline_job_locations_witness:
  "(\<exists>e. fst (enqueue_pipeline_job True (\<lambda>i. 0) ''doc-1'' ''manual_upload'' ''org_1'' ''a.pdf''
              ''pdf'' None None False world_empty) = Inl e \<and> exn_name e = ''ValueError'')
   \<and> queue (snd (enqueue_pipeline_job True (\<lambda>i. 0) ''doc-1'' ''manual_upload'' ''org_1'' ''a.pdf''
              ''pdf'' None None False world_empty)) = []
   \<and> length (jobs (snd (enqueue_pipeline_job True (\<lambda>i. 0) ''doc-1'' ''manual_upload'' ''org_1''
              ''a.pdf'' ''pdf'' None None False world_empty))) = 1
   \<and> map qt_location (queue (snd (enqueue_pipeline_job True (\<lambda>i. 0) ''doc-1'' ''google_drive''
              ''org_1'' ''a.pdf'' ''pdf'' (Some ''raw_documents/doc-1.pdf'')
              (Some ''gdrive://abc'') False world_empty))) = [Some ''gdrive://abc'']"
  using enqueue_pipeline_job_locations [OF refl, of None None "''manual_upload''" True "\<lambda>i. 0"
      "''doc-1''" "''org_1''" "''a.pdf''" "''pdf''" False world_empty]
    enqueue_pipeline_job_locations [OF refl, of "Some ''raw_documents/doc-1.pdf''"
      "Some ''gdrive://abc''" "''google_drive''" True "\<lambda>i. 0" "''doc-1''" "''org_1''" "''a.pdf''"
      "''pdf''" False world_empty]
  by (auto simp: falsy_def world_empty_def)

text \<open>
  C9 as stated fails: a manual upload that supplies both locations is accepted; the
  skipped ingestion phase is created and the extraction is enqueued.
\<close>

theorem enqueue_pipeline_job_counterexample:
  "fst (enqueue_pipeline_job True (\<lambda>i. 0) ''doc-1'' ''manual_upload'' ''org_1'' ''a.pdf'' ''pdf''
          (Some ''raw_documents/doc-1.pdf'') (Some ''gdrive://abc'') False world_empty)
     = Inr (1, RqJob ''extract_'' 1)
   \<and> map qt_queue (queue (snd (enqueue_pipeline_job True (\<lambda>i. 0) ''doc-1'' ''manual_upload''
          ''org_1'' ''a.pdf'' ''pdf'' (Some ''raw_documents/doc-1.pdf'') (Some ''gdrive://abc'')
          False world_empty))) = [''extraction'']
   \<and> map pp_status (phases (snd (enqueue_pipeline_job True (\<lambda>i. 0) ''doc-1'' ''manual_upload''
          ''org_1'' ''a.pdf'' ''pdf'' (Some ''raw_documents/doc-1.pdf'') (Some ''gdrive://abc'')
          False world_empty))) = [''skipped'']"
  by (simp add: enqueue_pipeline_job_def create_pipeline_job_def Let_def falsy_def
      enqueue_task_def create_skipped_ingestion_phase_def world_empty_def fresh_id_def)


section \<open>Properties of the cancellation\<close>

lemma id_in_selected:
  assumes "distinct (map pj_id js)" "j \<in> set js"
  shows "(pj_id j \<in> set (map pj_id (filter P js))) = P j"
proof
  assume "pj_id j \<in> set (map pj_id (filter P js))"
  then obtain j' where j': "j' \<in> set js" "P j'" "pj_id j' = pj_id j" by auto
  from assms(1) have "inj_on pj_id (set js)" by (simp add: distinct_map)
  with j' assms(2) have "j' = j" by (auto dest: inj_onD)
  with j' show "P j" by simp
next
  assume "P j"
  with assms(2) show "pj_id j \<in> set (map pj_id (filter P js))" by auto
qed

lemma cancel_result:
  assumes d: "distinct (map pj_id (jobs w))"
  shows "cancel_pipeline_jobs_for_document None clock document_id org_id w
     = (length (filter (active_job document_id org_id) (jobs w)),
        w\<lparr>jobs := map (\<lambda>j. if active_job document_id org_id j then cancelled_job (clock 0) j
                             else j) (jobs w),
          phases := map (\<lambda>p. if (\<exists>j \<in> set (jobs w). active_job document_id org_id j
                                     \<and> pj_id j = pp_pipeline_job_id p)
                                \<and> pp_status p \<in> {''queued'', ''processing''}
                              then cancelled_phase (clock 1) p else p) (phases w)\<rparr>)"
proof -
  let ?N = "active_job document_id org_id"
  have ids: "\<And>x. (x \<in> set (map pj_id (filter ?N (jobs w))))
      = (\<exists>j \<in> set (jobs w). ?N j \<and> pj_id j = x)" by auto
  show ?thesis
  proof (cases "filter ?N (jobs w) = []")
    case True
    then have none: "\<forall>j \<in> set (jobs w). \<not> ?N j" by (simp add: filter_empty_conv)
    then have j: "map (\<lambda>j. if ?N j then cancelled_job (clock 0) j else j) (jobs w) = jobs w"
      by (simp add: map_idI)
    have p: "map (\<lambda>p. if (\<exists>j \<in> set (jobs w). ?N j \<and> pj_id j = pp_pipeline_job_id p)
                                \<and> pp_status p \<in> {''queued'', ''processing''}
                              then cancelled_phase (clock 1) p else p) (phases w) = phases w"
      using none by (simp add: map_idI)
    show ?thesis
      unfolding j p using True by (simp add: cancel_pipeline_jobs_for_document_def)
  next
    case False
    have j: "map (\<lambda>j. if pj_id j \<in> set (map pj_id (filter ?N (jobs w)))
                       then j\<lparr>pj_status := ''cancelled'', pj_completed_at := Some (clock 0)\<rparr>
                       else j) (jobs w)
        = map (\<lambda>j. if ?N j then cancelled_job (clock 0) j else j) (jobs w)"
      using id_in_selected[OF d, of _ ?N] by (auto simp: cancelled_job_def intro!: map_cong)
    have p: "map (\<lambda>p. if pp_pipeline_job_id p \<in> set (map pj_id (filter ?N (jobs w)))
                          \<and> pp_status p \<in> set [''queued'', ''processing'']
                        then p\<lparr>pp_status := ''cancelled'', pp_completed_at := Some (clock 1),
                               pp_error_message := Some ''Document was deleted''\<rparr>
                        else p) (phases w)
        = map (\<lambda>p. if (\<exists>j \<in> set (jobs w). ?N j \<and> pj_id j = pp_pipeline_job_id p)
                                \<and> pp_status p \<in> {''queued'', ''processing''}
                              then cancelled_phase (clock 1) p else p) (phases w)"
      unfolding ids by (auto simp: cancelled_phase_def intro!: map_cong)
    show ?thesis
      using False j p
      by (simp add: cancel_pipeline_jobs_for_document_def Let_def)
  qed
qed


text \<open>
  C6 (as amended). In a store whose job identifiers are unique, and when no request to
  the store fails, the cancellation marks exactly the jobs of the document that belong
  to the tenant given to the call and whose status is processing or pending as cancelled
  with \<open>completed_at\<close> the instant read for the jobs, and exactly the queued or
  processing phases of those jobs as cancelled with \<open>completed_at\<close> the instant read for
  the phases and the error message "Document was deleted". It returns the number of
  jobs cancelled. Every other job, in particular every job that is completed, failed or
  cancelled, every other phase, in particular every phase that is completed, failed,
  cancelled or skipped, and every other table is left as it was.
\<close>

theorem cancel_marks_active_jobs:
  assumes "distinct (map pj_id (jobs w))"
    and "r = cancel_pipeline_jobs_for_document None clock document_id org_id w"
  shows "fst r = length (filter (\<lambda>j. pj_document_id j = document_id
                                     \<and> pj_clerk_org_id j = org_id
                                     \<and> pj_status j \<in> {''processing'', ''pending''}) (jobs w))
    \<and> length (jobs (snd r)) = length (jobs w) \<and> length (phases (snd r)) = length (phases w)
    \<and> (\<forall>i < length (jobs w).
          jobs (snd r) ! i =
            (if pj_document_id (jobs w ! i) = document_id
                 \<and> pj_clerk_org_id (jobs w ! i) = org_id
                 \<and> pj_status (jobs w ! i) \<in> {''processing'', ''pending''}
             then (jobs w ! i)\<lparr>pj_status := ''cancelled'', pj_completed_at := Some (clock 0)\<rparr>
             else jobs w ! i))
    \<and> (\<forall>i < length (phases w).
          phases (snd r) ! i =
            (if (\<exists>j \<in> set (jobs w). pj_document_id j = document_id
                    \<and> pj_clerk_org_id j = org_id
                    \<and> pj_status j \<in> {''processing'', ''pending''}
                    \<and> pj_id j = pp_pipeline_job_id (phases w ! i))
                 \<and> pp_status (phases w ! i) \<in> {''queued'', ''processing''}
             then (phases w ! i)\<lparr>pp_status := ''cancelled'', pp_completed_at := Some (clock 1),
                    pp_error_message := Some ''Document was deleted''\<rparr>
             else phases w ! i))
    \<and> (\<forall>i < length (jobs w).
          pj_status (jobs w ! i) \<in> {''completed'', ''failed'', ''cancelled''}
          \<longrightarrow> jobs (snd r) ! i = jobs w ! i)
    \<and> (\<forall>i < length (phases w).
          pp_status (phases w ! i) \<in> {''completed'', ''failed'', ''cancelled'', ''skipped''}
          \<longrightarrow> phases (snd r) ! i = phases w ! i)
    \<and> documents (snd r) = documents w \<and> chunks (snd r) = chunks w
    \<and> mappings (snd r) = mappings w \<and> queue (snd r) = queue w \<and> trace (snd r) = trace w"
proof -
  have f: "filter (active_job document_id org_id) (jobs w)
      = filter (\<lambda>j. pj_document_id j = document_id \<and> pj_clerk_org_id j = org_id
                      \<and> pj_status j \<in> {''processing'', ''pending''}) (jobs w)"
    by (rule filter_cong) (auto simp: active_job_def)
  show ?thesis
    unfolding assms(2) cancel_result[OF assms(1)] f
    by (auto simp: active_job_def cancelled_job_def cancelled_phase_def)
qed

theorem cancel_marks_active_jobs_witness:
  "fst (cancel_pipeline_jobs_for_document None (\<lambda>i. 1000 + real i) ''doc-1'' ''org_1''
          cancel_example) = 1
   \<and> jobs (snd (cancel_pipeline_jobs_for_document None (\<lambda>i. 1000 + real i) ''doc-1'' ''org_1''
          cancel_example)) ! 0
       = (example_job 1 ''doc-1'' ''processing'')
           \<lparr>pj_status := ''cancelled'', pj_completed_at := Some 1000\<rparr>
   \<and> jobs (snd (cancel_pipeline_jobs_for_document None (\<lambda>i. 1000 + real i) ''doc-1'' ''org_1''
          cancel_example)) ! 1 = example_job 2 ''doc-1'' ''completed''
   \<and> phases (snd (cancel_pipeline_jobs_for_document None (\<lambda>i. 1000 + real i) ''doc-1'' ''org_1''
          cancel_example)) ! 1
       = (example_phase 2 1 ''chunking'' ''processing'')
           \<lparr>pp_status := ''cancelled'', pp_completed_at := Some 1001,
            pp_error_message := Some ''Document was deleted''\<rparr>
   \<and> phases (snd (cancel_pipeline_jobs_for_document None (\<lambda>i. 1000 + real i) ''doc-1'' ''org_1''
          cancel_example)) ! 3 = example_phase 4 3 ''extraction'' ''processing''"
proof -
  let ?r = "cancel_pipeline_jobs_for_document None (\<lambda>i. 1000 + real i) ''doc-1'' ''org_1''
      cancel_example"
  have d: "distinct (map pj_id (jobs cancel_example))"
    by (simp add: cancel_example_def world_empty_def example_job_def)
  note c = cancel_marks_active_jobs[OF d refl, of "\<lambda>i. 1000 + real i" "''doc-1''" "''org_1''"]
  have j: "jobs cancel_example = [example_job 1 ''doc-1'' ''processing'',
      example_job 2 ''doc-1'' ''completed'', example_job 3 ''doc-2'' ''processing'']"
    by (simp add: cancel_example_def world_empty_def)
  have p: "phases cancel_example = [example_phase 1 1 ''extraction'' ''completed'',
                example_phase 2 1 ''chunking'' ''processing'',
                example_phase 3 2 ''kg_ingest'' ''completed'',
                example_phase 4 3 ''extraction'' ''processing'']"
    by (simp add: cancel_example_def world_empty_def)
  have n: "length (filter (\<lambda>j. pj_document_id j = ''doc-1'' \<and> pj_clerk_org_id j = ''org_1''
                                     \<and> pj_status j \<in> {''processing'', ''pending''})
                    (jobs cancel_example)) = 1"
    unfolding j by (simp add: example_job_def)
  from c have c1: "fst ?r = 1" unfolding n by blast
  from c have cj: "\<forall>i < length (jobs cancel_example).
          jobs (snd ?r) ! i =
            (if pj_document_id (jobs cancel_example ! i) = ''doc-1''
                 \<and> pj_clerk_org_id (jobs cancel_example ! i) = ''org_1''
                 \<and> pj_status (jobs cancel_example ! i) \<in> {''processing'', ''pending''}
             then (jobs cancel_example ! i)\<lparr>pj_status := ''cancelled'',
                     pj_completed_at := Some (1000 + real 0)\<rparr>
             else jobs cancel_example ! i)" by blast
  from c have cp: "\<forall>i < length (phases cancel_example).
          phases (snd ?r) ! i =
            (if (\<exists>j \<in> set (jobs cancel_example). pj_document_id j = ''doc-1''
                    \<and> pj_clerk_org_id j = ''org_1''
                    \<and> pj_status j \<in> {''processing'', ''pending''}
                    \<and> pj_id j = pp_pipeline_job_id (phases cancel_example ! i))
                 \<and> pp_status (phases cancel_example ! i) \<in> {''queued'', ''processing''}
             then (phases cancel_example ! i)\<lparr>pp_status := ''cancelled'',
                    pp_completed_at := Some (1000 + real 1),
                    pp_error_message := Some ''Document was deleted''\<rparr>
             else phases cancel_example ! i)" by blast
  from cj[rule_format, of 0] cj[rule_format, of 1]
  have j01: "jobs (snd ?r) ! 0 = (example_job 1 ''doc-1'' ''processing'')
           \<lparr>pj_status := ''cancelled'', pj_completed_at := Some 1000\<rparr>
    \<and> jobs (snd ?r) ! 1 = example_job 2 ''doc-1'' ''completed''"
    unfolding j by (simp add: example_job_def)
  from cp[rule_format, of 1] cp[rule_format, of 3]
  have p13: "phases (snd ?r) ! 1
       = (example_phase 2 1 ''chunking'' ''processing'')
           \<lparr>pp_status := ''cancelled'', pp_completed_at := Some 1001,
            pp_error_message := Some ''Document was deleted''\<rparr>
   \<and> phases (snd ?r) ! 3 = example_phase 4 3 ''extraction'' ''processing''"
    unfolding j p by (simp add: example_job_def example_phase_def)
  from c1 j01 p13 show ?thesis by blast
qed

text \<open>
  C6 as stated fails: the jobs are selected by document and by tenant. Called with
  another tenant than the one on the rows, the cancellation leaves the processing job of
  the document, and its processing phase, as they were.
\<close>

theorem cancel_other_tenant_counterexample:
  "cancel_pipeline_jobs_for_document None (\<lambda>i. 1000 + real i) ''doc-1'' ''org_2'' cancel_example
     = (0, cancel_example)
   \<and> pj_document_id (jobs cancel_example ! 0) = ''doc-1''
   \<and> pj_status (jobs cancel_example ! 0) = ''processing''"
  by (simp add: cancel_pipeline_jobs_for_document_def cancel_example_def world_empty_def
      example_job_def active_job_def)



section \<open>Properties of the graph ingest handler\<close>

lemma log_event_fields [simp]:
  "trace (log_event ev w) = trace w @ [ev]" "mappings (log_event ev w) = mappings w"
  "phases (log_event ev w) = phases w" "jobs (log_event ev w) = jobs w"
  "chunks (log_event ev w) = chunks w" "documents (log_event ev w) = documents w"
  "queue (log_event ev w) = queue w"
  by (simp_all add: log_event_def)

lemma update_phase_fields [simp]:
  "trace (update_phase i f w) = trace w" "mappings (update_phase i f w) = mappings w"
  "jobs (update_phase i f w) = jobs w" "chunks (update_phase i f w) = chunks w"
  "documents (update_phase i f w) = documents w" "queue (update_phase i f w) = queue w"
  by (simp_all add: update_phase_def)

lemma update_job_fields [simp]:
  "trace (update_job i f w) = trace w" "mappings (update_job i f w) = mappings w"
  "phases (update_job i f w) = phases w" "chunks (update_job i f w) = chunks w"
  "documents (update_job i f w) = documents w" "queue (update_job i f w) = queue w"
  by (simp_all add: update_job_def)

lemma update_job_metadata_fields [simp]:
  "trace (update_job_metadata now i d w) = trace w"
  "mappings (update_job_metadata now i d w) = mappings w"
  "phases (update_job_metadata now i d w) = phases w"
  "chunks (update_job_metadata now i d w) = chunks w"
  "documents (update_job_metadata now i d w) = documents w"
  "queue (update_job_metadata now i d w) = queue w"
  by (simp_all add: update_job_metadata_def Let_def)

lemma clear_retry_metadata_fields [simp]:
  "trace (clear_retry_metadata now i rc w) = trace w"
  "mappings (clear_retry_metadata now i rc w) = mappings w"
  "phases (clear_retry_metadata now i rc w) = phases w"
  "chunks (clear_retry_metadata now i rc w) = chunks w"
  "documents (clear_retry_metadata now i rc w) = documents w"
  "queue (clear_retry_metadata now i rc w) = queue w"
  by (simp_all add: clear_retry_metadata_def)

lemma insert_phase_fields [simp]:
  "fst (insert_phase j l st loc rc par q s x w) = fresh_id (map pp_id (phases w))"
  "trace (snd (insert_phase j l st loc rc par q s x w))
     = trace w @ [InsertPhase (fresh_id (map pp_id (phases w))) l st]"
  "mappings (snd (insert_phase j l st loc rc par q s x w)) = mappings w"
  "jobs (snd (insert_phase j l st loc rc par q s x w)) = jobs w"
  "chunks (snd (insert_phase j l st loc rc par q s x w)) = chunks w"
  "documents (snd (insert_phase j l st loc rc par q s x w)) = documents w"
  "queue (snd (insert_phase j l st loc rc par q s x w)) = queue w"
  by (simp_all add: insert_phase_def Let_def)

lemma mark_failed_fields [simp]:
  "trace (mark_failed now e (Some pid) w) = trace w @ [UpdatePhase pid ''failed'' (Some (exn_name e))]"
  "mappings (mark_failed now e p w) = mappings w"
  "chunks (mark_failed now e p w) = chunks w"
  "documents (mark_failed now e p w) = documents w"
  "queue (mark_failed now e p w) = queue w"
  by (simp_all add: mark_failed_def split: option.splits)







lemma remove_episodes_fields [simp]:
  "trace (remove_episodes ids w) = trace w @ map RemoveEpisode ids"
  "mappings (remove_episodes ids w) = mappings w"
  "phases (remove_episodes ids w) = phases w"
  "chunks (remove_episodes ids w) = chunks w"
  by (induction ids arbitrary: w) auto


lemma load_chunks_cong: "chunks w' = chunks w \<Longrightarrow> load_chunks d w' = load_chunks d w"
  by (simp add: load_chunks_def)

lemma lookup_title_cong:
  "documents w' = documents w \<Longrightarrow> lookup_document_title kw d w' = lookup_document_title kw d w"
  by (simp add: lookup_document_title_def)

lemma document_mappings_deleted [simp]:
  "document_mappings d (delete_mappings d w) = []"
  by (simp add: document_mappings_def delete_mappings_def filter_empty_conv)

lemma delete_mappings_fields [simp]:
  "trace (delete_mappings d w) = trace w @ [DeleteMappings d]"
  "phases (delete_mappings d w) = phases w" "chunks (delete_mappings d w) = chunks w"
  by (simp_all add: delete_mappings_def)

lemma document_mappings_cong:
  "mappings w' = mappings w \<Longrightarrow> document_mappings d w' = document_mappings d w"
  by (simp add: document_mappings_def)













end
